theory Spec2Isabelle
  imports Complex_Main "HOL-Library.AList"
begin

section \<open>Python values, exceptions and the world the handlers run in\<close>

text \<open>
  The repository is a FastAPI backend in two variants: \<open>src/api.py\<close> runs the real
  processing pipeline, \<open>src/main.py\<close> a simulated one, and
  \<open>src/app/api/upload-complete.py\<close> is a third copy of the completion handler.
  Definitions taken from \<open>api.py\<close> carry the prefix \<open>api_\<close>, those from \<open>main.py\<close> the
  prefix \<open>main_\<close>, the one from \<open>upload-complete.py\<close> the prefix \<open>app_\<close>.

  Embedded are the job lifecycle of both variants: the status helper, the creation of an
  upload, the completion handler, the processing run, status, download and delete, and of
  \<open>api.py\<close> the direct upload and the direct processing call. Outside the model are the
  token check (a handler receives the user id it yields), the listing and catalogue
  endpoints, the direct upload and processing calls of \<open>main.py\<close>, and the content of
  the local temporary files of a run (only the directory is tracked).

  A JSON-like Python value; a \<open>dict\<close> is an association list in insertion order.
\<close>

datatype pyval = PInt int | PStr string | PBool bool | PFloat real

type_synonym pydict = "(string \<times> pyval) list"

type_synonym bytes = string

text \<open>
  Exceptions as values. \<open>HTTPException\<close> carries \<open>status_code\<close> and \<open>detail\<close>;
  \<open>TimeoutError\<close> is \<open>asyncio.TimeoutError\<close>; every other exception class is
  \<open>Exception\<close>. The two last carry the text \<open>str(e)\<close>.
\<close>

datatype exc = HTTPException nat string | TimeoutError string | Exception string

fun str_nat :: "nat \<Rightarrow> string" where
  "str_nat n = (if n < 10 then [''0123456789'' ! n]
                else str_nat (n div 10) @ [''0123456789'' ! (n mod 10)])"

declare str_nat.simps [simp del]

text \<open>\<open>str(e)\<close>; for an \<open>HTTPException\<close> the framework renders \<open>"{status_code}: {detail}"\<close>.\<close>

fun str :: "exc \<Rightarrow> string" where
  "str (HTTPException c d) = str_nat c @ '': '' @ d"
| "str (TimeoutError m) = m"
| "str (Exception m) = m"

text \<open>A row of the table \<open>documents\<close>. Nullable columns are options.\<close>

record doc =
  doc_id :: string
  user_id :: string
  filename :: string
  original_filename :: string
  status :: string
  style_applied :: string
  language_variant :: string
  storage_location :: "string option"
  formatting_options :: "pydict option"
  tracked_changes :: "pyval option"
  file_type :: "string option"
  file_size :: "int option"
  processing_log :: "pydict option"
  result_url :: "string option"
  formatting_time :: "real option"
  created_at :: nat
  updated_at :: nat
  processed_at :: "nat option"

text \<open>The dict \<open>update_data\<close> sent to the store: a column is written iff it is present.\<close>

record update_data =
  u_status :: string
  u_updated_at :: nat
  u_processing_log :: "pydict option"
  u_result_url :: "string option"
  u_processed_at :: "nat option"
  u_formatting_time :: "real option"

definition apply_update :: "update_data \<Rightarrow> doc \<Rightarrow> doc" where
  "apply_update u r =
     r\<lparr> status := u_status u,
        updated_at := u_updated_at u,
        processing_log := (case u_processing_log u of None \<Rightarrow> processing_log r | Some l \<Rightarrow> Some l),
        result_url := (case u_result_url u of None \<Rightarrow> result_url r | Some x \<Rightarrow> Some x),
        processed_at := (case u_processed_at u of None \<Rightarrow> processed_at r | Some t \<Rightarrow> Some t),
        formatting_time := (case u_formatting_time u of None \<Rightarrow> formatting_time r | Some t \<Rightarrow> Some t) \<rparr>"

text \<open>A coroutine handed to \<open>asyncio.create_task\<close>, with its arguments.\<close>

datatype task =
    ProcessDocumentTask string string string string pydict string
  | SimulateProcessing string

text \<open>One invocation of \<open>update_document_status\<close>, with its arguments.\<close>

record status_call =
  c_job_id :: string
  c_status :: string
  c_progress :: "int option"
  c_processing_log :: "pydict option"
  c_result_url :: "string option"
  c_formatting_time :: "real option"

text \<open>
  The state the handlers and background tasks share: the table \<open>documents\<close> of the
  record store, the storage bucket \<open>documents\<close>, the tasks created on the event loop,
  the module-level dict \<open>jobs_storage\<close> of \<open>main.py\<close>, the number of live temporary
  directories, a clock for \<open>datetime.utcnow()\<close>, and the number of UUIDs drawn so far.

  \<open>db_faults\<close> and \<open>st_faults\<close> script the collaborators: the n-th entry is the outcome of
  the n-th coming call to the record store (to the storage service), \<open>Some e\<close> when that
  call raises \<open>e\<close>; past the end of the script every call goes through.

  \<open>calls\<close> is the history of invocations of \<open>update_document_status\<close> and \<open>error_log\<close>
  the lines written with \<open>logger.error\<close> (lines of level info and warning are left out).
\<close>

record world =
  documents :: "doc list"
  bucket :: "(string \<times> bytes) list"
  tasks :: "task list"
  jobs_storage :: "(string \<times> pydict) list"
  temp_dirs :: nat
  clock :: nat
  uuid_count :: nat
  db_faults :: "exc option list"
  st_faults :: "exc option list"
  calls :: "status_call list"
  error_log :: "string list"

text \<open>A computation that reads and writes the world and returns or raises.\<close>

type_synonym 'a io = "world \<Rightarrow> (exc + 'a) \<times> world"

definition io_return :: "'a \<Rightarrow> 'a io" where
  "io_return x w = (Inr x, w)"

definition io_raise :: "exc \<Rightarrow> 'a io" where
  "io_raise e w = (Inl e, w)"

definition io_bind :: "'a io \<Rightarrow> ('a \<Rightarrow> 'b io) \<Rightarrow> 'b io" where
  "io_bind m f w = (case m w of (Inl e, w') \<Rightarrow> (Inl e, w') | (Inr x, w') \<Rightarrow> f x w')"

text \<open>\<open>try: m except ... as e: h e\<close>\<close>

definition io_try :: "'a io \<Rightarrow> (exc \<Rightarrow> 'a io) \<Rightarrow> 'a io" where
  "io_try m h w = (case m w of (Inl e, w') \<Rightarrow> h e w' | (Inr x, w') \<Rightarrow> (Inr x, w'))"

text \<open>\<open>try: m finally: f\<close>: \<open>f\<close> runs on every exit; an exception of \<open>f\<close> replaces the outcome.\<close>

definition io_finally :: "'a io \<Rightarrow> unit io \<Rightarrow> 'a io" where
  "io_finally m f w =
     (case m w of (r, w') \<Rightarrow> (case f w' of (Inl e, w'') \<Rightarrow> (Inl e, w'') | (Inr _, w'') \<Rightarrow> (r, w'')))"

definition io_lift :: "exc + 'a \<Rightarrow> 'a io" where
  "io_lift r w = (r, w)"

definition logger_error :: "string \<Rightarrow> unit io" where
  "logger_error line w = (Inr (), w\<lparr>error_log := error_log w @ [line]\<rparr>)"

definition utcnow :: "nat io" where
  "utcnow w = (Inr (clock w), w)"

definition create_task :: "task \<Rightarrow> unit io" where
  "create_task t w = (Inr (), w\<lparr>tasks := tasks w @ [t]\<rparr>)"

subsection \<open>The record store\<close>

text \<open>\<open>....execute()\<close>: the next scripted outcome decides whether the call raises.\<close>

definition db_execute :: "(world \<Rightarrow> 'a \<times> world) \<Rightarrow> 'a io" where
  "db_execute q w =
     (case db_faults w of
        Some e # fs \<Rightarrow> (Inl e, w\<lparr>db_faults := fs\<rparr>)
      | None # fs \<Rightarrow> (case q (w\<lparr>db_faults := fs\<rparr>) of (x, w') \<Rightarrow> (Inr x, w'))
      | [] \<Rightarrow> (case q w of (x, w') \<Rightarrow> (Inr x, w')))"

text \<open>\<open>table("documents").select("*").eq(...)...\<close>: \<open>response.data\<close> is the matching rows.\<close>

definition select_documents :: "(doc \<Rightarrow> bool) \<Rightarrow> doc list io" where
  "select_documents p = db_execute (\<lambda>w. (filter p (documents w), w))"

definition insert_document :: "doc \<Rightarrow> doc list io" where
  "insert_document r = db_execute (\<lambda>w. ([r], w\<lparr>documents := documents w @ [r]\<rparr>))"

definition update_documents :: "update_data \<Rightarrow> string \<Rightarrow> doc list io" where
  "update_documents u job_id =
     db_execute (\<lambda>w.
       let rows = map (\<lambda>r. if doc_id r = job_id then apply_update u r else r) (documents w)
       in (filter (\<lambda>r. doc_id r = job_id) rows, w\<lparr>documents := rows\<rparr>))"

definition delete_documents :: "string \<Rightarrow> doc list io" where
  "delete_documents job_id =
     db_execute (\<lambda>w. (filter (\<lambda>r. doc_id r = job_id) (documents w),
                      w\<lparr>documents := filter (\<lambda>r. doc_id r \<noteq> job_id) (documents w)\<rparr>))"

text \<open>\<open>supabase.rpc(...).execute()\<close>: the usage counters it maintains are not part of the state.\<close>

definition rpc :: "string \<Rightarrow> unit io" where
  "rpc name = db_execute (\<lambda>w. ((), w))"

subsection \<open>The storage service and the other collaborators\<close>

text \<open>
  What lies outside the repository: configuration, randomness, the wall clock, the storage
  service's answer to a request for a signed upload URL, and the transformation engine
  (\<open>core.formatter\<close>, \<open>core.api_clients\<close>). \<open>AdvancedFormatter style client\<close> raises or
  gives the formatter, taken as its method \<open>format_document\<close> from the input file's
  content to the output file's content. \<open>elapsed\<close> is the wall-clock time the
  transformation takes, \<open>b64decode\<close> is \<open>base64.b64decode\<close>, which raises on a text
  that is not base64, and \<open>str_response\<close> is the text Python prints for the storage
  service's answer in a log line.
\<close>

datatype signed_response = RDict "(string \<times> string) list" | RStr string | RNone

datatype client = GeminiClient | HuggingFaceClient

record env =
  SUPABASE_URL :: string
  SUPABASE_ANON_KEY :: string
  DEFAULT_BACKEND :: "string option"
  uuid_source :: "nat \<Rightarrow> string"
  time_now :: nat
  signed_upload_url :: "string \<Rightarrow> signed_response"
  AdvancedFormatter :: "string \<Rightarrow> client \<Rightarrow> exc + (bytes \<Rightarrow> exc + bytes)"
  elapsed :: real
  b64decode :: "string \<Rightarrow> exc + bytes"
  str_response :: "signed_response \<Rightarrow> string"

definition st_execute :: "(world \<Rightarrow> (exc + 'a) \<times> world) \<Rightarrow> 'a io" where
  "st_execute q w =
     (case st_faults w of
        Some e # fs \<Rightarrow> (Inl e, w\<lparr>st_faults := fs\<rparr>)
      | None # fs \<Rightarrow> q (w\<lparr>st_faults := fs\<rparr>)
      | [] \<Rightarrow> q w)"

definition storage_download :: "string \<Rightarrow> bytes io" where
  "storage_download path =
     st_execute (\<lambda>w. case map_of (bucket w) path of
                        None \<Rightarrow> (Inl (Exception ''Object not found''), w)
                      | Some content \<Rightarrow> (Inr content, w))"

definition storage_upload :: "string \<Rightarrow> bytes \<Rightarrow> unit io" where
  "storage_upload path content =
     st_execute (\<lambda>w. (Inr (), w\<lparr>bucket := AList.update path content (bucket w)\<rparr>))"

definition storage_remove :: "string list \<Rightarrow> unit io" where
  "storage_remove paths =
     st_execute (\<lambda>w. (Inr (), w\<lparr>bucket := filter (\<lambda>(p, _). p \<notin> set paths) (bucket w)\<rparr>))"

definition create_signed_upload_url :: "env \<Rightarrow> string \<Rightarrow> signed_response io" where
  "create_signed_upload_url env path = st_execute (\<lambda>w. (Inr (signed_upload_url env path), w))"

text \<open>\<open>uuid.uuid4()\<close>, \<open>tempfile.mkdtemp()\<close> and \<open>shutil.rmtree(temp_dir)\<close>.\<close>

definition uuid4 :: "env \<Rightarrow> string io" where
  "uuid4 env w = (Inr (uuid_source env (uuid_count w)), w\<lparr>uuid_count := Suc (uuid_count w)\<rparr>)"

definition mkdtemp :: "unit io" where
  "mkdtemp w = (Inr (), w\<lparr>temp_dirs := Suc (temp_dirs w)\<rparr>)"

definition rmtree :: "unit io" where
  "rmtree w = (Inr (), w\<lparr>temp_dirs := temp_dirs w - 1\<rparr>)"

subsection \<open>Python string operations\<close>

fun starts_with :: "string \<Rightarrow> string \<Rightarrow> bool" where
  "starts_with s [] = True"
| "starts_with [] (p # ps) = False"
| "starts_with (c # cs) (p # ps) = (c = p \<and> starts_with cs ps)"

text \<open>\<open>sub in s\<close>\<close>

fun contains :: "string \<Rightarrow> string \<Rightarrow> bool" where
  "contains [] sub = (sub = [])"
| "contains (c # cs) sub = (starts_with (c # cs) sub \<or> contains cs sub)"

text \<open>\<open>s.split(sep)\<close> for a separator that is not empty, with the part read so far.\<close>

fun split_at :: "string \<Rightarrow> string \<Rightarrow> string \<Rightarrow> string list" where
  "split_at sep acc [] = [rev acc]"
| "split_at sep acc (c # cs) =
     (if sep \<noteq> [] \<and> starts_with (c # cs) sep
      then rev acc # split_at sep [] (drop (length sep) (c # cs))
      else split_at sep (c # acc) cs)"

definition split_str :: "string \<Rightarrow> string \<Rightarrow> string list" where
  "split_str s sep = split_at sep [] s"

definition lower :: "string \<Rightarrow> string" where
  "lower s =
     map (\<lambda>c. case map_of (zip ''ABCDEFGHIJKLMNOPQRSTUVWXYZ'' ''abcdefghijklmnopqrstuvwxyz'') c of
                None \<Rightarrow> c | Some l \<Rightarrow> l) s"

text \<open>Truthiness of a value, and \<open>a or b\<close> on optional strings.\<close>

fun truthy :: "pyval \<Rightarrow> bool" where
  "truthy (PInt i) = (i \<noteq> 0)"
| "truthy (PStr s) = (s \<noteq> [])"
| "truthy (PBool b) = b"
| "truthy (PFloat x) = (x \<noteq> 0)"

definition py_or :: "string option \<Rightarrow> string option \<Rightarrow> string option" where
  "py_or a b = (case a of Some (c # cs) \<Rightarrow> a | _ \<Rightarrow> b)"

section \<open>The status-update helper\<close>

text \<open>\<open>update_document_status\<close> of \<open>api.py\<close> (lines 223-251).\<close>

definition api_update_data ::
  "nat \<Rightarrow> string \<Rightarrow> int option \<Rightarrow> pydict option \<Rightarrow> string option \<Rightarrow> real option \<Rightarrow> update_data" where
  "api_update_data now status' progress processing_log' result_url' formatting_time' =
     \<lparr> u_status = status',
       u_updated_at = now,
       u_processing_log =
         (case progress of
            None \<Rightarrow> None
          | Some p \<Rightarrow>
              Some (AList.update ''progress'' (PInt p)
                     (case processing_log' of None \<Rightarrow> [] | Some l \<Rightarrow> l))),
       u_result_url =
         (case result_url' of None \<Rightarrow> None | Some x \<Rightarrow> if x = [] then None else Some x),
       u_processed_at = (if status' = ''formatted'' then Some now else None),
       u_formatting_time = (if status' = ''formatted'' then formatting_time' else None) \<rparr>"

definition record_call ::
  "string \<Rightarrow> string \<Rightarrow> int option \<Rightarrow> pydict option \<Rightarrow> string option \<Rightarrow> real option \<Rightarrow> unit io" where
  "record_call job_id status' progress processing_log' result_url' formatting_time' w =
     (Inr (), w\<lparr>calls := calls w @
        [\<lparr> c_job_id = job_id, c_status = status', c_progress = progress,
           c_processing_log = processing_log', c_result_url = result_url',
           c_formatting_time = formatting_time' \<rparr>]\<rparr>)"

definition api_update_document_status ::
  "string \<Rightarrow> string \<Rightarrow> int option \<Rightarrow> pydict option \<Rightarrow> string option \<Rightarrow> real option \<Rightarrow> unit io" where
  "api_update_document_status job_id status' progress processing_log' result_url' formatting_time' =
     io_bind (record_call job_id status' progress processing_log' result_url' formatting_time') (\<lambda>_.
     io_try
       (io_bind utcnow (\<lambda>now.
        io_bind (update_documents
                   (api_update_data now status' progress processing_log' result_url' formatting_time')
                   job_id) (\<lambda>_.
        io_return ())))
       (\<lambda>e. logger_error (''Error updating document status: '' @ str e)))"

text \<open>\<open>update_document_status\<close> of \<open>main.py\<close> (lines 283-305): no result location, no duration.\<close>

definition main_update_data :: "nat \<Rightarrow> string \<Rightarrow> int option \<Rightarrow> pydict option \<Rightarrow> update_data" where
  "main_update_data now status' progress processing_log' =
     \<lparr> u_status = status',
       u_updated_at = now,
       u_processing_log =
         (case progress of
            None \<Rightarrow> None
          | Some p \<Rightarrow>
              Some (AList.update ''progress'' (PInt p)
                     (case processing_log' of None \<Rightarrow> [] | Some l \<Rightarrow> l))),
       u_result_url = None,
       u_processed_at = (if status' = ''formatted'' then Some now else None),
       u_formatting_time = None \<rparr>"

definition main_update_document_status ::
  "string \<Rightarrow> string \<Rightarrow> int option \<Rightarrow> pydict option \<Rightarrow> unit io" where
  "main_update_document_status job_id status' progress processing_log' =
     io_bind (record_call job_id status' progress processing_log' None None) (\<lambda>_.
     io_try
       (io_bind utcnow (\<lambda>now.
        io_bind (update_documents (main_update_data now status' progress processing_log') job_id) (\<lambda>_.
        io_return ())))
       (\<lambda>e. logger_error (''Error updating document status: '' @ str e)))"

section \<open>The real strategy: \<open>src/api.py\<close>\<close>

subsection \<open>Upload coordinator\<close>

record upload_info =
  upload_url :: string
  file_path :: string
  upload_token :: string
  upload_headers :: "(string \<times> string) list"

definition file_extension :: "string \<Rightarrow> string" where
  "file_extension name =
     (if CHR ''.'' \<in> set name then lower (last (split_str name ''.'')) else ''docx'')"

text \<open>The pair \<open>(signed_url, token)\<close> read from the storage service's response.\<close>

definition signed_url_of :: "signed_response \<Rightarrow> string option \<times> string" where
  "signed_url_of response =
     (case response of
        RDict d \<Rightarrow>
          (py_or (py_or (map_of d ''signedURL'') (map_of d ''signed_url'')) (map_of d ''url''),
           case map_of d ''token'' of None \<Rightarrow> [] | Some t \<Rightarrow> t)
      | RStr s \<Rightarrow> (if s \<noteq> [] then Some s else None, [])
      | RNone \<Rightarrow> (None, []))"

definition unique_filename :: "env \<Rightarrow> string \<Rightarrow> string \<Rightarrow> string \<Rightarrow> string" where
  "unique_filename env name uid u =
     ''documents/'' @ uid @ ''/'' @ str_nat (time_now env) @ ''_'' @ u @ ''.'' @ file_extension name"

definition api_generate_signed_upload_url :: "env \<Rightarrow> string \<Rightarrow> string \<Rightarrow> upload_info io" where
  "api_generate_signed_upload_url env name uid =
     io_try
       (io_bind (uuid4 env) (\<lambda>u.
        io_bind (create_signed_upload_url env (unique_filename env name uid u)) (\<lambda>response.
        case signed_url_of response of
          (Some (c # cs), token) \<Rightarrow>
            io_return \<lparr> upload_url = c # cs,
                        file_path = unique_filename env name uid u,
                        upload_token = token,
                        upload_headers = [(''Authorization'', ''Bearer '' @ SUPABASE_ANON_KEY env),
                                          (''x-upsert'', ''true'')] \<rparr>
        | _ \<Rightarrow> io_raise (Exception ''Failed to generate signed upload URL''))))
       (\<lambda>e. io_bind (logger_error (''Error generating signed upload URL: '' @ str e)) (\<lambda>_.
            io_raise (HTTPException 500 (''Failed to generate upload URL: '' @ str e))))"

definition api_create_document_record ::
  "string \<Rightarrow> string \<Rightarrow> string \<Rightarrow> string \<Rightarrow> string \<Rightarrow> string \<Rightarrow> pydict \<Rightarrow> int option \<Rightarrow> string io" where
  "api_create_document_record uid name path job_id style variant options fsize =
     io_try
       (io_bind utcnow (\<lambda>now.
        io_bind (insert_document
                  \<lparr> doc_id = job_id, user_id = uid, filename = name, original_filename = name,
                    status = ''draft'', style_applied = style, language_variant = variant,
                    storage_location = Some path, formatting_options = Some options,
                    tracked_changes =
                      Some (case map_of options ''trackedChanges'' of None \<Rightarrow> PBool False | Some v \<Rightarrow> v),
                    file_type = None, file_size = fsize, processing_log = None,
                    result_url = None, formatting_time = None,
                    created_at = now, updated_at = now, processed_at = None \<rparr>) (\<lambda>_.
        io_return job_id)))
       (\<lambda>e. io_bind (logger_error (''Error creating document record: '' @ str e)) (\<lambda>_.
            io_raise (HTTPException 500 (''Failed to create document record: '' @ str e))))"

record CreateUploadResponse =
  cu_success :: bool
  cu_job_id :: string
  cu_upload_url :: string
  cu_upload_token :: string
  cu_file_path :: string
  cu_message :: string
  cu_upload_headers :: "(string \<times> string) list"

text \<open>\<open>create_upload_url\<close> (lines 348-385); \<open>uid\<close> is \<open>user["user_id"]\<close>.\<close>

definition api_create_upload_url ::
  "env \<Rightarrow> string \<Rightarrow> string \<Rightarrow> string \<Rightarrow> bool \<Rightarrow> int option \<Rightarrow> string \<Rightarrow> CreateUploadResponse io" where
  "api_create_upload_url env name style englishVariant trackedChanges fsize uid =
     io_try
       (io_bind (uuid4 env) (\<lambda>job_id.
        io_bind (api_generate_signed_upload_url env name uid) (\<lambda>info.
        io_bind (api_create_document_record uid name (file_path info) job_id style englishVariant
                   [(''trackedChanges'', PBool trackedChanges)] fsize) (\<lambda>_.
        io_return \<lparr> cu_success = True, cu_job_id = job_id, cu_upload_url = upload_url info,
                    cu_upload_token = upload_token info, cu_file_path = file_path info,
                    cu_message = ''Upload URL created.'',
                    cu_upload_headers = upload_headers info \<rparr>))))
       (\<lambda>e. io_bind (logger_error (''Create upload error: '' @ str e)) (\<lambda>_.
            io_raise (HTTPException 500 (str e))))"

subsection \<open>Processing pipeline\<close>

text \<open>The download path: a full URL is cut down to what follows the bucket name.\<close>

definition relative_path :: "string \<Rightarrow> string" where
  "relative_path path =
     (if contains path ''http'' \<and> contains path ''/documents/''
      then (let parts = split_str path ''/documents/''
            in if length parts > 1 then hd (split_str (last parts) ''?'') else path)
      else path)"

text \<open>The message recorded for an exception with text \<open>error_msg\<close> (lines 331-335).\<close>

definition classify :: "string \<Rightarrow> string" where
  "classify error_msg =
     (if contains error_msg ''JSON Parsing Error'' \<or> contains error_msg ''Unexpected end of input''
      then ''Formatting failed: AI response was malformed. Please try again.''
      else if contains error_msg ''peer closed connection'' \<or> contains error_msg ''incomplete chunked read''
      then ''Formatting failed: Connection to AI server lost. Please try again.''
      else error_msg)"

definition backend_of :: "env \<Rightarrow> string" where
  "backend_of env = (case DEFAULT_BACKEND env of None \<Rightarrow> ''huggingface'' | Some b \<Rightarrow> b)"

definition result_filename :: "string \<Rightarrow> string" where
  "result_filename job_id = ''formatted/'' @ job_id @ ''.docx''"

text \<open>\<open>process_document_task\<close> (lines 253-340).\<close>

definition api_process_document_task ::
  "env \<Rightarrow> string \<Rightarrow> string \<Rightarrow> string \<Rightarrow> string \<Rightarrow> pydict \<Rightarrow> string \<Rightarrow> unit io" where
  "api_process_document_task env job_id path style english_variant options uid =
     io_bind mkdtemp (\<lambda>_.
     io_finally
       (io_try
          (io_bind (storage_download (relative_path path)) (\<lambda>file_content.
           io_bind (api_update_document_status job_id ''processing'' (Some 10)
                      (Some [(''message'', PStr ''File downloaded, initializing AI...'')]) None None) (\<lambda>_.
           io_bind (io_lift (AdvancedFormatter env style
                      (if backend_of env = ''gemini'' then GeminiClient else HuggingFaceClient))) (\<lambda>format_document.
           io_bind (api_update_document_status job_id ''processing'' (Some 30)
                      (Some [(''message'', PStr (''Analyzing document structure with '' @ backend_of env @ ''...''))])
                      None None) (\<lambda>_.
           io_bind (io_lift (format_document file_content)) (\<lambda>output.
           io_bind (api_update_document_status job_id ''processing'' (Some 90)
                      (Some [(''message'', PStr ''Formatting complete. Uploading result...'')]) None None) (\<lambda>_.
           io_bind (storage_upload (result_filename job_id) output) (\<lambda>_.
           api_update_document_status job_id ''formatted'' (Some 100)
             (Some [(''progress'', PInt 100), (''processing_time'', PFloat (elapsed env)),
                    (''backend'', PStr (backend_of env)), (''message'', PStr ''Formatting successful'')])
             (Some (result_filename job_id)) (Some (elapsed env))))))))))
          (\<lambda>e. io_bind (logger_error (''Job '' @ job_id @ '' failed: '' @ str e)) (\<lambda>_.
               api_update_document_status job_id ''failed'' (Some 0)
                 (Some [(''error'', PStr (classify (str e)))]) None None)))
       rmtree)"

subsection \<open>Completion handler, status reporter, artifact retriever, delete\<close>

record WebhookUploadComplete =
  wh_job_id :: string
  wh_file_path :: string
  wh_success :: bool

text \<open>\<open>upload_complete_webhook\<close> (lines 387-422).\<close>

definition api_upload_complete_webhook :: "WebhookUploadComplete \<Rightarrow> string \<Rightarrow> pydict io" where
  "api_upload_complete_webhook webhook_data uid =
     io_try
       (io_bind (select_documents (\<lambda>r. doc_id r = wh_job_id webhook_data \<and> user_id r = uid)) (\<lambda>data.
        case data of
          [] \<Rightarrow> io_raise (HTTPException 404 ''Job not found'')
        | document # _ \<Rightarrow>
            if wh_success webhook_data then
              io_bind (api_update_document_status (wh_job_id webhook_data) ''processing'' (Some 0)
                         None None None) (\<lambda>_.
              io_bind (create_task (ProcessDocumentTask (wh_job_id webhook_data)
                         (wh_file_path webhook_data) (style_applied document)
                         (language_variant document)
                         (case formatting_options document of None \<Rightarrow> [] | Some d \<Rightarrow> d) uid)) (\<lambda>_.
              io_return [(''success'', PBool True), (''message'', PStr ''Processing started''),
                         (''job_id'', PStr (wh_job_id webhook_data))]))
            else
              io_bind (api_update_document_status (wh_job_id webhook_data) ''failed'' (Some 0)
                         (Some [(''error'', PStr ''Upload failed'')]) None None) (\<lambda>_.
              io_return [(''success'', PBool False), (''message'', PStr ''Upload failed recorded'')])))
       (\<lambda>e. io_bind (logger_error (''Webhook error: '' @ str e)) (\<lambda>_.
            io_raise (HTTPException 500 (str e))))"

record DocumentStatusResponse =
  ds_success :: bool
  ds_job_id :: string
  ds_status :: string
  ds_progress :: pyval
  ds_result_url :: "string option"
  ds_error :: "pyval option"

text \<open>\<open>get_document_status\<close> (lines 424-443).\<close>

definition api_get_document_status :: "string \<Rightarrow> string \<Rightarrow> DocumentStatusResponse io" where
  "api_get_document_status job_id uid =
     io_try
       (io_bind (select_documents (\<lambda>r. doc_id r = job_id \<and> user_id r = uid)) (\<lambda>data.
        case data of
          [] \<Rightarrow> io_raise (HTTPException 404 ''Job not found'')
        | document # _ \<Rightarrow>
            (let plog = (case processing_log document of None \<Rightarrow> [] | Some l \<Rightarrow> l)
             in io_return \<lparr> ds_success = True, ds_job_id = job_id, ds_status = status document,
                            ds_progress = (case map_of plog ''progress'' of None \<Rightarrow> PInt 0 | Some v \<Rightarrow> v),
                            ds_result_url = None,
                            ds_error = map_of plog ''error'' \<rparr>)))
       (\<lambda>e. io_bind (logger_error (''Status error: '' @ str e)) (\<lambda>_.
            io_raise (HTTPException 500 (str e))))"

text \<open>\<open>B64 b\<close> stands for \<open>base64.b64encode(b).decode()\<close>.\<close>

datatype encoded = B64 bytes

record FormattedDocumentResponse =
  fd_success :: bool
  fd_filename :: string
  fd_content :: encoded
  fd_tracked_changes_content :: "encoded option"
  fd_metadata :: pydict

text \<open>\<open>download_document\<close> (lines 445-475).\<close>

definition api_download_document :: "string \<Rightarrow> string \<Rightarrow> FormattedDocumentResponse io" where
  "api_download_document job_id uid =
     io_try
       (io_bind (select_documents (\<lambda>r. doc_id r = job_id \<and> user_id r = uid)) (\<lambda>data.
        case data of
          [] \<Rightarrow> io_raise (HTTPException 404 ''Job not found'')
        | document # _ \<Rightarrow>
            if status document \<noteq> ''formatted'' then io_raise (HTTPException 400 ''Document not ready'')
            else (case result_url document of
                    Some (c # cs) \<Rightarrow>
                      io_bind (storage_download (c # cs)) (\<lambda>file_content.
                      io_return \<lparr> fd_success = True,
                                  fd_filename = ''formatted_'' @ filename document,
                                  fd_content = B64 file_content,
                                  fd_tracked_changes_content = None,
                                  fd_metadata = [(''style'', PStr (style_applied document))] \<rparr>)
                  | _ \<Rightarrow> io_raise (HTTPException 404 ''Result file not found''))))
       (\<lambda>e. io_bind (logger_error (''Download error: '' @ str e)) (\<lambda>_.
            io_raise (HTTPException 500 (str e))))"

text \<open>\<open>delete_job\<close> (lines 604-626).\<close>

definition api_delete_job :: "string \<Rightarrow> string \<Rightarrow> pydict io" where
  "api_delete_job job_id uid =
     io_try
       (io_bind (select_documents (\<lambda>r. doc_id r = job_id \<and> user_id r = uid)) (\<lambda>data.
        case data of
          [] \<Rightarrow> io_raise (HTTPException 404 ''Job not found'')
        | document # _ \<Rightarrow>
            io_bind (case storage_location document of
                       Some (c # cs) \<Rightarrow> storage_remove [c # cs] | _ \<Rightarrow> io_return ()) (\<lambda>_.
            io_bind (case result_url document of
                       Some (c # cs) \<Rightarrow> storage_remove [c # cs] | _ \<Rightarrow> io_return ()) (\<lambda>_.
            io_bind (delete_documents job_id) (\<lambda>_.
            io_return [(''success'', PBool True), (''message'', PStr ''Job deleted'')])))))
       (\<lambda>e. io_bind (logger_error (''Delete job error: '' @ str e)) (\<lambda>_.
            io_raise (HTTPException 500 (str e))))"

subsection \<open>The two endpoints kept for compatibility\<close>

text \<open>\<open>upload_document\<close> (lines 477-518): \<open>create_upload_url\<close> again, with another message.\<close>

definition api_upload_document ::
  "env \<Rightarrow> string \<Rightarrow> string \<Rightarrow> string \<Rightarrow> bool \<Rightarrow> int option \<Rightarrow> string \<Rightarrow> CreateUploadResponse io" where
  "api_upload_document env name style englishVariant trackedChanges fsize uid =
     io_try
       (io_bind (uuid4 env) (\<lambda>job_id.
        io_bind (api_generate_signed_upload_url env name uid) (\<lambda>info.
        io_bind (api_create_document_record uid name (file_path info) job_id style englishVariant
                   [(''trackedChanges'', PBool trackedChanges)] fsize) (\<lambda>_.
        io_return \<lparr> cu_success = True, cu_job_id = job_id, cu_upload_url = upload_url info,
                    cu_upload_token = upload_token info, cu_file_path = file_path info,
                    cu_message = ''Document queued for '' @ style
                      @ '' formatting. Status: DRAFT. Upload your file to begin processing.'',
                    cu_upload_headers = upload_headers info \<rparr>))))
       (\<lambda>e. io_bind (logger_error (''Upload endpoint error: '' @ str e)) (\<lambda>_.
            io_raise (HTTPException 500 (''Upload failed: '' @ str e))))"

record ProcessDocumentRequest =
  pr_filename :: string
  pr_content :: string
  pr_style :: string
  pr_englishVariant :: string
  pr_trackedChanges :: bool

record ProcessDocumentResponse =
  pd_success :: bool
  pd_job_id :: string
  pd_status :: string
  pd_message :: string

text \<open>
  \<open>process_document\<close> (lines 520-575): the content comes with the request, the record
  is created and the pipeline is started at once, with no completion call.
\<close>

definition api_process_document :: "env \<Rightarrow> ProcessDocumentRequest \<Rightarrow> string \<Rightarrow> ProcessDocumentResponse io" where
  "api_process_document env request uid =
     io_try
       (io_bind (uuid4 env) (\<lambda>job_id.
        io_bind
          (if pr_content request \<noteq> []
           then io_try
                  (io_bind (io_lift (b64decode env (pr_content request))) (\<lambda>content_bytes.
                   storage_upload (''legacy/'' @ uid @ ''/'' @ job_id @ ''.docx'') content_bytes))
                  (\<lambda>e. logger_error (''Failed to upload legacy content: '' @ str e))
           else io_return ()) (\<lambda>_.
        io_bind (api_create_document_record uid (pr_filename request)
                   (''legacy/'' @ uid @ ''/'' @ job_id @ ''.docx'') job_id (pr_style request)
                   (pr_englishVariant request)
                   [(''trackedChanges'', PBool (pr_trackedChanges request))] None) (\<lambda>_.
        io_bind
          (if pr_content request \<noteq> []
           then create_task (ProcessDocumentTask job_id (''legacy/'' @ uid @ ''/'' @ job_id @ ''.docx'')
                               (pr_style request) (pr_englishVariant request)
                               [(''trackedChanges'', PBool (pr_trackedChanges request))] uid)
           else io_return ()) (\<lambda>_.
        io_return \<lparr> pd_success = True, pd_job_id = job_id,
                    pd_status = (if pr_content request \<noteq> [] then ''processing'' else ''draft''),
                    pd_message = ''Document queued for '' @ pr_style request @ '' formatting'' \<rparr>)))))
       (\<lambda>e. io_bind (logger_error (''Process endpoint error: '' @ str e)) (\<lambda>_.
            io_raise (HTTPException 500 (''Processing failed: '' @ str e))))"

section \<open>The simulated strategy: \<open>src/main.py\<close>\<close>

subsection \<open>Upload coordinator\<close>

text \<open>
  One attempt at a signed URL (lines 178-192, and again 199-211). When the response holds
  no URL, \<open>complain\<close> runs (the first attempt logs the response, the second logs nothing)
  and the text \<open>msg\<close> is raised.
\<close>

definition signed_url_attempt ::
  "env \<Rightarrow> string \<Rightarrow> (signed_response \<Rightarrow> unit io) \<Rightarrow> string \<Rightarrow> (string \<times> string) io" where
  "signed_url_attempt env path complain msg =
     io_bind (create_signed_upload_url env path) (\<lambda>response.
     case signed_url_of response of
       (Some (c # cs), token) \<Rightarrow> io_return (c # cs, token)
     | _ \<Rightarrow> io_bind (complain response) (\<lambda>_. io_raise (Exception msg)))"

text \<open>\<open>generate_signed_upload_url\<close> (lines 166-237).\<close>

definition main_generate_signed_upload_url :: "env \<Rightarrow> string \<Rightarrow> string \<Rightarrow> upload_info io" where
  "main_generate_signed_upload_url env name uid =
     io_try
       (io_bind (uuid4 env) (\<lambda>u.
        io_bind
          (io_try
             (signed_url_attempt env (unique_filename env name uid u)
                (\<lambda>response. logger_error (''No signed URL in response: '' @ str_response env response))
                ''Failed to generate signed upload URL - no signedURL returned'')
             (\<lambda>storage_error.
                io_bind (logger_error (''Supabase storage error: '' @ str storage_error)) (\<lambda>_.
                io_try
                  (signed_url_attempt env (unique_filename env name uid u) (\<lambda>_. io_return ())
                     ''Alternative method also failed to generate signed URL'')
                  (\<lambda>alt_error.
                     io_bind (logger_error (''Alternative storage method failed: '' @ str alt_error)) (\<lambda>_.
                     io_raise (Exception (''Both storage methods failed: '' @ str storage_error
                                          @ '' | '' @ str alt_error)))))))
          (\<lambda>(signed_url, token).
             io_return \<lparr> upload_url = signed_url,
                         file_path = unique_filename env name uid u,
                         upload_token = token,
                         upload_headers = [(''Authorization'', ''Bearer '' @ SUPABASE_ANON_KEY env),
                                           (''x-upsert'', ''true'')] \<rparr>)))
       (\<lambda>e. io_bind (logger_error (''Error generating signed upload URL: '' @ str e)) (\<lambda>_.
            io_bind (logger_error (''Supabase URL: '' @ SUPABASE_URL env)) (\<lambda>_.
            io_bind (logger_error ''Storage bucket: documents'') (\<lambda>_.
            io_bind (logger_error (''User ID: '' @ uid)) (\<lambda>_.
            io_bind (logger_error (''Filename: '' @ name)) (\<lambda>_.
            io_raise (HTTPException 500 (''Failed to generate upload URL: '' @ str e))))))))"

text \<open>The size check of lines 264-268 and 411-415: \<open>100 * 1024 * 1024\<close> is the ceiling.\<close>

definition check_file_size :: "int option \<Rightarrow> unit io" where
  "check_file_size fsize =
     (case fsize of
        None \<Rightarrow> io_return ()
      | Some n \<Rightarrow>
          if n < 0 then io_raise (HTTPException 400 ''File size must be non-negative'')
          else if n > 100 * 1024 * 1024
          then io_raise (HTTPException 400 ''File size exceeds maximum limit of 100MB'')
          else io_return ())"

definition main_create_document_record ::
  "string \<Rightarrow> string \<Rightarrow> string \<Rightarrow> string \<Rightarrow> string \<Rightarrow> string \<Rightarrow> pydict \<Rightarrow> int option \<Rightarrow> string io" where
  "main_create_document_record uid name path job_id style variant options fsize =
     io_try
       (io_bind utcnow (\<lambda>now.
        io_bind (check_file_size fsize) (\<lambda>_.
        io_bind (insert_document
                  \<lparr> doc_id = job_id, user_id = uid, filename = name, original_filename = name,
                    status = ''draft'', style_applied = style, language_variant = variant,
                    storage_location = Some path, formatting_options = Some options,
                    tracked_changes =
                      Some (case map_of options ''trackedChanges'' of None \<Rightarrow> PBool False | Some v \<Rightarrow> v),
                    file_type = Some (file_extension name), file_size = fsize, processing_log = None,
                    result_url = None, formatting_time = None,
                    created_at = now, updated_at = now, processed_at = None \<rparr>) (\<lambda>data.
        if data = [] then io_raise (Exception ''Failed to create document record'')
        else io_return job_id))))
       (\<lambda>e. io_bind (logger_error (''Error creating document record: '' @ str e)) (\<lambda>_.
            io_raise (HTTPException 500 (''Failed to create document record: '' @ str e))))"

text \<open>\<open>except HTTPException: raise\<close> followed by \<open>except Exception as e\<close> raising status 500.\<close>

definition reraise_http :: "string \<Rightarrow> string \<Rightarrow> exc \<Rightarrow> 'a io" where
  "reraise_http logged detail e =
     (case e of
        HTTPException c d \<Rightarrow> io_raise e
      | _ \<Rightarrow> io_bind (logger_error (logged @ str e)) (\<lambda>_.
             io_raise (HTTPException 500 (detail @ str e))))"

text \<open>\<open>create_upload_url\<close> (lines 398-452).\<close>

definition main_create_upload_url ::
  "env \<Rightarrow> string \<Rightarrow> string \<Rightarrow> string \<Rightarrow> bool \<Rightarrow> int option \<Rightarrow> string \<Rightarrow> CreateUploadResponse io" where
  "main_create_upload_url env name style englishVariant trackedChanges fsize uid =
     io_try
       (io_bind (uuid4 env) (\<lambda>job_id.
        io_bind (check_file_size fsize) (\<lambda>_.
        io_bind (main_generate_signed_upload_url env name uid) (\<lambda>info.
        io_bind (main_create_document_record uid name (file_path info) job_id style englishVariant
                   [(''trackedChanges'', PBool trackedChanges)] fsize) (\<lambda>_.
        io_return \<lparr> cu_success = True, cu_job_id = job_id, cu_upload_url = upload_url info,
                    cu_upload_token = upload_token info, cu_file_path = file_path info,
                    cu_message = ''Upload URL created. Document status: DRAFT. Please upload your document to begin ''
                                  @ style @ '' formatting.'',
                    cu_upload_headers = upload_headers info \<rparr>)))))
       (reraise_http ''Create upload URL error: '' ''Failed to create upload URL: '')"

subsection \<open>Simulated processing\<close>

text \<open>\<open>asyncio.sleep(n)\<close>: time passes.\<close>

definition sleep :: "nat \<Rightarrow> unit io" where
  "sleep n w = (Inr (), w\<lparr>clock := clock w + n\<rparr>)"

definition track_document_usage :: "string \<Rightarrow> unit io" where
  "track_document_usage uid =
     io_try (rpc ''increment_document_usage'')
       (\<lambda>e. io_bind (logger_error (''Error tracking document usage: '' @ str e)) (\<lambda>_. io_raise e))"

definition track_storage_usage :: "string \<Rightarrow> unit io" where
  "track_storage_usage uid =
     io_try (rpc ''update_storage_usage'')
       (\<lambda>e. io_bind (logger_error (''Error tracking storage usage: '' @ str e)) (\<lambda>_. io_raise e))"

text \<open>The inner \<open>try\<close> of \<open>simulate_processing\<close> (lines 329-349): usage tracking, which never fails the run.\<close>

definition track_usage :: "string \<Rightarrow> unit io" where
  "track_usage job_id =
     io_try
       (io_bind (select_documents (\<lambda>r. doc_id r = job_id)) (\<lambda>data.
        case data of
          [] \<Rightarrow> io_return ()
        | d # _ \<Rightarrow>
            io_bind (track_document_usage (user_id d)) (\<lambda>_.
            track_storage_usage (user_id d))))
       (\<lambda>usage_error.
          logger_error (''Error tracking usage for job '' @ job_id @ '': '' @ str usage_error))"

text \<open>\<open>simulate_processing\<close> (lines 307-353).\<close>

definition main_simulate_processing :: "string \<Rightarrow> unit io" where
  "main_simulate_processing job_id =
     io_try
       (io_bind (sleep 1) (\<lambda>_.
        io_bind (main_update_document_status job_id ''processing'' (Some 25) None) (\<lambda>_.
        io_bind (sleep 2) (\<lambda>_.
        io_bind (main_update_document_status job_id ''processing'' (Some 75) None) (\<lambda>_.
        io_bind (sleep 1) (\<lambda>_.
        io_bind (main_update_document_status job_id ''formatted'' (Some 100)
                   (Some [(''progress'', PInt 100), (''word_count'', PInt 1250),
                          (''processing_time'', PFloat 3.5)])) (\<lambda>_.
        track_usage job_id)))))))
       (\<lambda>e. io_bind (logger_error (''Error in processing simulation: '' @ str e)) (\<lambda>_.
            main_update_document_status job_id ''failed'' None (Some [(''error'', PStr (str e))])))"

subsection \<open>Completion handler, status reporter, artifact retriever, delete\<close>

text \<open>\<open>upload_complete_webhook\<close> (lines 454-495).\<close>

definition main_upload_complete_webhook :: "WebhookUploadComplete \<Rightarrow> string \<Rightarrow> pydict io" where
  "main_upload_complete_webhook webhook_data uid =
     io_try
       (io_bind (select_documents (\<lambda>r. doc_id r = wh_job_id webhook_data \<and> user_id r = uid)) (\<lambda>data.
        case data of
          [] \<Rightarrow> io_raise (HTTPException 404 ''Job not found'')
        | document # _ \<Rightarrow>
            if wh_success webhook_data then
              io_bind (main_update_document_status (wh_job_id webhook_data) ''processing'' (Some 0) None) (\<lambda>_.
              io_bind (create_task (SimulateProcessing (wh_job_id webhook_data))) (\<lambda>_.
              io_return [(''success'', PBool True),
                         (''message'', PStr ''Upload confirmed. Document processing started. Status: PROCESSING''),
                         (''job_id'', PStr (wh_job_id webhook_data))]))
            else
              io_bind (main_update_document_status (wh_job_id webhook_data) ''failed'' None
                         (Some [(''error'', PStr ''File upload failed'')])) (\<lambda>_.
              io_return [(''success'', PBool False),
                         (''message'', PStr ''Upload failed. Status: FAILED. Please try again.''),
                         (''job_id'', PStr (wh_job_id webhook_data))])))
       (reraise_http ''Upload complete webhook error: '' ''Webhook processing failed: '')"

text \<open>\<open>upload_complete_webhook\<close> of \<open>src/app/api/upload-complete.py\<close>.\<close>

definition app_upload_complete_webhook :: "WebhookUploadComplete \<Rightarrow> string \<Rightarrow> pydict io" where
  "app_upload_complete_webhook webhook_data uid =
     io_try
       (io_bind
          (io_try (select_documents (\<lambda>r. doc_id r = wh_job_id webhook_data \<and> user_id r = uid))
             (\<lambda>db_error.
                case db_error of
                  TimeoutError m \<Rightarrow>
                    io_bind (logger_error (''[v0] Database query timeout for job_id: '' @ wh_job_id webhook_data)) (\<lambda>_.
                    io_raise (HTTPException 504 ''Database query timeout''))
                | _ \<Rightarrow>
                    io_bind (logger_error (''[v0] Database error querying documents: '' @ str db_error)) (\<lambda>_.
                    io_raise (HTTPException 500 ''Database error''))))
          (\<lambda>data.
        case data of
          [] \<Rightarrow> io_raise (HTTPException 404 ''Job not found'')
        | document # _ \<Rightarrow>
            if wh_success webhook_data then
              io_bind
                (io_try (main_update_document_status (wh_job_id webhook_data) ''processing'' (Some 0) None)
                   (\<lambda>update_error.
                      io_bind (logger_error (''[v0] Failed to update document status: '' @ str update_error)) (\<lambda>_.
                      io_raise (HTTPException 500 ''Failed to update document status'')))) (\<lambda>_.
              io_bind (create_task (SimulateProcessing (wh_job_id webhook_data))) (\<lambda>_.
              io_return [(''success'', PBool True),
                         (''message'', PStr ''Upload confirmed. Document processing started. Status: PROCESSING''),
                         (''job_id'', PStr (wh_job_id webhook_data))]))
            else
              io_bind
                (io_try (main_update_document_status (wh_job_id webhook_data) ''failed'' None
                           (Some [(''error'', PStr ''File upload failed'')]))
                   (\<lambda>update_error.
                      logger_error (''[v0] Failed to update failed status: '' @ str update_error))) (\<lambda>_.
              io_return [(''success'', PBool False),
                         (''message'', PStr ''Upload failed. Status: FAILED. Please try again.''),
                         (''job_id'', PStr (wh_job_id webhook_data))])))
       (\<lambda>e. case e of
              HTTPException c d \<Rightarrow> io_bind (logger_error (''[v0] HTTP Exception: '' @ d)) (\<lambda>_. io_raise e)
            | _ \<Rightarrow> io_bind (logger_error (''[v0] Unexpected error in upload_complete_webhook: '' @ str e)) (\<lambda>_.
                   io_raise (HTTPException 500 (''Webhook processing failed: '' @ str e))))"

text \<open>\<open>get_document_status\<close> (lines 591-615).\<close>

definition main_get_document_status :: "string \<Rightarrow> string \<Rightarrow> DocumentStatusResponse io" where
  "main_get_document_status job_id uid =
     io_try
       (io_bind (select_documents (\<lambda>r. doc_id r = job_id \<and> user_id r = uid)) (\<lambda>data.
        case data of
          [] \<Rightarrow> io_raise (HTTPException 404 ''Job not found'')
        | document # _ \<Rightarrow>
            (let plog = (case processing_log document of None \<Rightarrow> [] | Some l \<Rightarrow> l)
             in io_return \<lparr> ds_success = True, ds_job_id = job_id, ds_status = status document,
                            ds_progress = (case map_of plog ''progress'' of None \<Rightarrow> PInt 0 | Some v \<Rightarrow> v),
                            ds_result_url = (if status document = ''formatted''
                                             then Some (''/api/documents/download/'' @ job_id) else None),
                            ds_error = map_of plog ''error'' \<rparr>)))
       (reraise_http ''Status endpoint error: '' ''Failed to get status: '')"

text \<open>\<open>download_document\<close> (lines 617-664): the content is a mock built from the record.\<close>

definition mock_content :: "doc \<Rightarrow> string" where
  "mock_content document =
     ''FORMATTED DOCUMENT: '' @ filename document @ [CHR 0x0A] @ ''Style: '' @ style_applied document
       @ [CHR 0x0A] @ ''Variant: '' @ language_variant document"

definition tracked_content :: "doc \<Rightarrow> string" where
  "tracked_content document =
     ''TRACKED CHANGES VERSION: '' @ filename document @ [CHR 0x0A] @ ''Style: '' @ style_applied document
       @ [CHR 0x0A] @ ''Variant: '' @ language_variant document @ [CHR 0x0A, CHR 0x0A]
       @ ''[CHANGES TRACKED:]'' @ [CHR 0x0A] @ ''- Paragraph formatting adjusted'' @ [CHR 0x0A]
       @ ''- Heading styles applied'' @ [CHR 0x0A] @ ''- Spacing normalized'' @ [CHR 0x0A]
       @ ''- References formatted''"

definition tracked_changes_enabled :: "doc \<Rightarrow> pyval" where
  "tracked_changes_enabled document =
     (case tracked_changes document of
        Some v \<Rightarrow> v
      | None \<Rightarrow>
          (case map_of (case formatting_options document of None \<Rightarrow> [] | Some d \<Rightarrow> d) ''trackedChanges'' of
             None \<Rightarrow> PBool False | Some v \<Rightarrow> v))"

definition main_download_document :: "string \<Rightarrow> string \<Rightarrow> FormattedDocumentResponse io" where
  "main_download_document job_id uid =
     io_try
       (io_bind (select_documents (\<lambda>r. doc_id r = job_id \<and> user_id r = uid)) (\<lambda>data.
        case data of
          [] \<Rightarrow> io_raise (HTTPException 404 ''Job not found'')
        | document # _ \<Rightarrow>
            if status document \<noteq> ''formatted''
            then io_raise (HTTPException 400 ''Document not ready for download'')
            else (let plog = (case processing_log document of None \<Rightarrow> [] | Some l \<Rightarrow> l)
                  in io_return
                       \<lparr> fd_success = True,
                         fd_filename = ''formatted_'' @ filename document,
                         fd_content = B64 (mock_content document),
                         fd_tracked_changes_content =
                           (if truthy (tracked_changes_enabled document)
                            then Some (B64 (tracked_content document)) else None),
                         fd_metadata =
                           [(''word_count'', case map_of plog ''word_count'' of None \<Rightarrow> PInt 1250 | Some v \<Rightarrow> v),
                            (''style_applied'', PStr (style_applied document)),
                            (''processing_time'', case map_of plog ''processing_time'' of None \<Rightarrow> PFloat 3.5 | Some v \<Rightarrow> v),
                            (''tracked_changes_enabled'', tracked_changes_enabled document)] \<rparr>)))
       (reraise_http ''Download endpoint error: '' ''Download failed: '')"

text \<open>\<open>delete_job\<close> (lines 717-722): it reads the in-memory dict and takes no user.\<close>

definition main_delete_job :: "string \<Rightarrow> pydict io" where
  "main_delete_job job_id w =
     (if job_id \<in> fst ` set (jobs_storage w)
      then (Inr [(''success'', PBool True), (''message'', PStr ''Job deleted'')],
            w\<lparr>jobs_storage := filter (\<lambda>(k, _). k \<noteq> job_id) (jobs_storage w)\<rparr>)
      else (Inl (HTTPException 404 ''Job not found''), w))"

section \<open>Running the tasks created on the event loop\<close>

definition run_task :: "env \<Rightarrow> task \<Rightarrow> unit io" where
  "run_task env t =
     (case t of
        ProcessDocumentTask job_id path style english_variant options uid \<Rightarrow>
          api_process_document_task env job_id path style english_variant options uid
      | SimulateProcessing job_id \<Rightarrow> main_simulate_processing job_id)"

text \<open>The event loop takes the oldest task and runs it to its end.\<close>

definition run_next_task :: "env \<Rightarrow> world \<Rightarrow> world" where
  "run_next_task env w =
     (case tasks w of
        [] \<Rightarrow> w
      | t # ts \<Rightarrow> snd (run_task env t (w\<lparr>tasks := ts\<rparr>)))"

section \<open>Scenarios\<close>

text \<open>
  A draft job of user \<open>alice\<close> who asked for tracked changes, in a world where the client
  has uploaded the input and nothing else is going on; and the same job in later states.
\<close>

definition job1 :: doc where
  "job1 =
     \<lparr> doc_id = ''job-1'', user_id = ''alice'', filename = ''thesis.docx'',
       original_filename = ''thesis.docx'', status = ''draft'', style_applied = ''apa'',
       language_variant = ''us'', storage_location = Some ''documents/alice/17_u1.docx'',
       formatting_options = Some [(''trackedChanges'', PBool True)],
       tracked_changes = Some (PBool True), file_type = None, file_size = Some 500000,
       processing_log = None, result_url = None, formatting_time = None,
       created_at = 0, updated_at = 0, processed_at = None \<rparr>"

definition world1 :: world where
  "world1 =
     \<lparr> documents = [job1], bucket = [(''documents/alice/17_u1.docx'', ''raw text'')],
       tasks = [], jobs_storage = [], temp_dirs = 0, clock = 0, uuid_count = 2,
       db_faults = [], st_faults = [], calls = [], error_log = [] \<rparr>"

definition notify1 :: WebhookUploadComplete where
  "notify1 = \<lparr> wh_job_id = ''job-1'', wh_file_path = ''documents/alice/17_u1.docx'', wh_success = True \<rparr>"

text \<open>An engine that works, and one whose response cannot be parsed.\<close>

definition env_ok :: env where
  "env_ok =
     \<lparr> SUPABASE_URL = ''https://project.supabase.co'', SUPABASE_ANON_KEY = ''anon'',
       DEFAULT_BACKEND = None,
       uuid_source = (\<lambda>n. if n = 0 then ''job-1'' else ''u'' @ str_nat n), time_now = 17,
       signed_upload_url = (\<lambda>path. RDict [(''signed_url'', ''https://storage/'' @ path), (''token'', ''t'')]),
       AdvancedFormatter = (\<lambda>style c. Inr (\<lambda>content. Inr (''formatted '' @ content))),
       elapsed = 2, b64decode = (\<lambda>text. Inr text),
       str_response = (\<lambda>response. case response of RDict d \<Rightarrow> ''{...}'' | RStr u \<Rightarrow> u
                                                   | RNone \<Rightarrow> ''None'') \<rparr>"

definition env_malformed :: env where
  "env_malformed =
     env_ok\<lparr> AdvancedFormatter :=
              (\<lambda>style c. Inr (\<lambda>content. Inl (Exception ''JSON Parsing Error: Unexpected end of input''))) \<rparr>"

text \<open>
  The job after the completion handler of \<open>api.py\<close> accepted the upload (the task is
  created and has not run yet), and after that task ran with the working engine.
\<close>

definition world_processing :: world where
  "world_processing = snd (api_upload_complete_webhook notify1 ''alice'' world1)"

definition world_formatted :: world where
  "world_formatted = run_next_task env_ok world_processing"

text \<open>The storage objects of a job: its input and, if present, its output.\<close>

definition stored_objects :: "doc \<Rightarrow> string list" where
  "stored_objects d =
     (case storage_location d of Some (c # cs) \<Rightarrow> [c # cs] | _ \<Rightarrow> []) @
     (case result_url d of Some (c # cs) \<Rightarrow> [c # cs] | _ \<Rightarrow> [])"

text \<open>
  The job after a run in which the engine's response cannot be parsed, and after the
  completion handler and the simulation of \<open>main.py\<close>.
\<close>

definition world_failed :: world where
  "world_failed = run_next_task env_malformed world_processing"

definition world_simulated :: world where
  "world_simulated = run_next_task env_ok (snd (main_upload_complete_webhook notify1 ''alice'' world1))"

section \<open>The calls of the status-update helper, by call site\<close>

text \<open>
  The arguments \<open>api.py\<close> passes at line 403 (completion handler), at lines 278, 291, 303
  and 324 (pipeline) and at line 337 (the pipeline's \<open>except\<close>), and those \<open>main.py\<close>
  passes at lines 313, 316 and 327 (simulation).
\<close>

definition call_0 :: "string \<Rightarrow> status_call" where
  "call_0 job =
     \<lparr> c_job_id = job, c_status = ''processing'', c_progress = Some 0,
       c_processing_log = None, c_result_url = None, c_formatting_time = None \<rparr>"

definition call_10 :: "string \<Rightarrow> status_call" where
  "call_10 job =
     \<lparr> c_job_id = job, c_status = ''processing'', c_progress = Some 10,
       c_processing_log = Some [(''message'', PStr ''File downloaded, initializing AI...'')],
       c_result_url = None, c_formatting_time = None \<rparr>"

definition call_30 :: "env \<Rightarrow> string \<Rightarrow> status_call" where
  "call_30 env job =
     \<lparr> c_job_id = job, c_status = ''processing'', c_progress = Some 30,
       c_processing_log =
         Some [(''message'', PStr (''Analyzing document structure with '' @ backend_of env @ ''...''))],
       c_result_url = None, c_formatting_time = None \<rparr>"

definition call_90 :: "string \<Rightarrow> status_call" where
  "call_90 job =
     \<lparr> c_job_id = job, c_status = ''processing'', c_progress = Some 90,
       c_processing_log = Some [(''message'', PStr ''Formatting complete. Uploading result...'')],
       c_result_url = None, c_formatting_time = None \<rparr>"

definition call_100 :: "env \<Rightarrow> string \<Rightarrow> status_call" where
  "call_100 env job =
     \<lparr> c_job_id = job, c_status = ''formatted'', c_progress = Some 100,
       c_processing_log =
         Some [(''progress'', PInt 100), (''processing_time'', PFloat (elapsed env)),
               (''backend'', PStr (backend_of env)), (''message'', PStr ''Formatting successful'')],
       c_result_url = Some (result_filename job), c_formatting_time = Some (elapsed env) \<rparr>"

definition call_failed :: "string \<Rightarrow> string \<Rightarrow> status_call" where
  "call_failed job error_msg =
     \<lparr> c_job_id = job, c_status = ''failed'', c_progress = Some 0,
       c_processing_log = Some [(''error'', PStr (classify error_msg))],
       c_result_url = None, c_formatting_time = None \<rparr>"

definition sim_call :: "string \<Rightarrow> int \<Rightarrow> status_call" where
  "sim_call job p =
     \<lparr> c_job_id = job, c_status = ''processing'', c_progress = Some p,
       c_processing_log = None, c_result_url = None, c_formatting_time = None \<rparr>"

definition sim_call_100 :: "string \<Rightarrow> status_call" where
  "sim_call_100 job =
     \<lparr> c_job_id = job, c_status = ''formatted'', c_progress = Some 100,
       c_processing_log = Some [(''progress'', PInt 100), (''word_count'', PInt 1250),
                                (''processing_time'', PFloat 3.5)],
       c_result_url = None, c_formatting_time = None \<rparr>"

section \<open>Reachable states of the real strategy\<close>

text \<open>The error the status reporter reads off a record.\<close>

definition error_of :: "doc \<Rightarrow> pyval option" where
  "error_of r = map_of (case processing_log r of None \<Rightarrow> [] | Some l \<Rightarrow> l) ''error''"



definition issue :: "status_call \<Rightarrow> unit io" where
  "issue c =
     api_update_document_status (c_job_id c) (c_status c) (c_progress c) (c_processing_log c)
       (c_result_url c) (c_formatting_time c)"

text \<open>
  The progress the status reporter reads off a record (\<open>processing_log.get("progress", 0)\<close>,
  \<open>api.py\<close> line 438 and \<open>main.py\<close> line 606), and what a client that polls the status
  reporter of \<open>api.py\<close> is told: the status and the progress.
\<close>

definition progress_of :: "doc \<Rightarrow> pyval" where
  "progress_of r =
     (case map_of (case processing_log r of None \<Rightarrow> [] | Some l \<Rightarrow> l) ''progress'' of
        None \<Rightarrow> PInt 0 | Some v \<Rightarrow> v)"


text \<open>
  Calls of the status-update helper made one after the other, and whether the record
  store answers the call that comes after \<open>n\<close> others.
\<close>

definition issue_all :: "status_call list \<Rightarrow> world \<Rightarrow> world" where
  "issue_all cs w = fold (\<lambda>c v. snd (issue c v)) cs w"

definition answers_at :: "nat \<Rightarrow> world \<Rightarrow> bool" where
  "answers_at n w = (case drop n (db_faults w) of Some e # fs \<Rightarrow> False | _ \<Rightarrow> True)"

text \<open>
  What a failed run of \<open>job\<close> leaves, from the world \<open>w\<close> before the run to the world
  \<open>w'\<close> after it, when the exception's text is \<open>msg\<close> and \<open>pre\<close> are the calls made
  before the failure: one more call, the only one with status \<open>failed\<close>, carrying
  progress 0 and the classified message. When the record store answers that call, every
  record of the job has status \<open>failed\<close>, the classified message as its error and
  progress 0; when the store raises, the write is dropped and the table is what the calls
  before it left.
\<close>

definition run_failed_with :: "string \<Rightarrow> status_call list \<Rightarrow> string \<Rightarrow> world \<Rightarrow> world \<Rightarrow> bool" where
  "run_failed_with job pre msg w w' =
     (calls w' = calls w @ pre @ [call_failed job msg] \<and>
      filter (\<lambda>c. c_status c = ''failed'') (pre @ [call_failed job msg]) = [call_failed job msg] \<and>
      map doc_id (documents w') = map doc_id (documents w) \<and>
      (if answers_at (length pre) w
       then \<forall>r \<in> set (documents w').
              doc_id r = job \<longrightarrow>
                status r = ''failed'' \<and>
                processing_log r = Some [(''error'', PStr (classify msg)), (''progress'', PInt 0)]
       else documents w' = documents (issue_all pre w)))"














section \<open>Basic facts\<close>

lemmas io_defs = io_return_def io_raise_def io_bind_def io_try_def io_finally_def io_lift_def
  logger_error_def utcnow_def create_task_def db_execute_def record_call_def st_execute_def
  select_documents_def insert_document_def update_documents_def delete_documents_def rpc_def
  storage_download_def storage_upload_def storage_remove_def create_signed_upload_url_def
  uuid4_def mkdtemp_def rmtree_def sleep_def

text \<open>
  What one invocation of the status-update helper does to the world: it is recorded in
  the history, uses up one outcome of the record store, and touches nothing else but the
  table and the error log.
\<close>

lemma api_update_effect:
  "\<exists>w'. api_update_document_status j s p l r t w = (Inr (), w') \<and>
        calls w' = calls w @
          [\<lparr> c_job_id = j, c_status = s, c_progress = p,
             c_processing_log = l, c_result_url = r, c_formatting_time = t \<rparr>] \<and>
        tasks w' = tasks w \<and> bucket w' = bucket w \<and> st_faults w' = st_faults w \<and>
        temp_dirs w' = temp_dirs w \<and> db_faults w' = tl (db_faults w)"
  by (simp add: api_update_document_status_def io_defs Let_def
      split: list.split option.split prod.split sum.split)

lemma main_update_effect:
  "\<exists>w'. main_update_document_status j s p l w = (Inr (), w') \<and>
        calls w' = calls w @
          [\<lparr> c_job_id = j, c_status = s, c_progress = p,
             c_processing_log = l, c_result_url = None, c_formatting_time = None \<rparr>] \<and>
        tasks w' = tasks w \<and> bucket w' = bucket w \<and> st_faults w' = st_faults w \<and>
        temp_dirs w' = temp_dirs w \<and> db_faults w' = tl (db_faults w)"
  by (simp add: main_update_document_status_def io_defs Let_def
      split: list.split option.split prod.split sum.split)

lemma api_update_dropped:
  "db_faults w = Some e # fs \<Longrightarrow>
   api_update_document_status j s p l r t w =
     (Inr (), w\<lparr> calls := calls w @
                  [\<lparr> c_job_id = j, c_status = s, c_progress = p,
                     c_processing_log = l, c_result_url = r, c_formatting_time = t \<rparr>],
                db_faults := fs,
                error_log := error_log w @ [''Error updating document status: '' @ str e] \<rparr>)"
  by (simp add: api_update_document_status_def io_defs Let_def)

lemma main_update_dropped:
  "db_faults w = Some e # fs \<Longrightarrow>
   main_update_document_status j s p l w =
     (Inr (), w\<lparr> calls := calls w @
                  [\<lparr> c_job_id = j, c_status = s, c_progress = p,
                     c_processing_log = l, c_result_url = None, c_formatting_time = None \<rparr>],
                db_faults := fs,
                error_log := error_log w @ [''Error updating document status: '' @ str e] \<rparr>)"
  by (simp add: main_update_document_status_def io_defs Let_def)

lemma api_webhook_continues:
  "db_faults v = None # Some e # fs \<Longrightarrow>
   filter (\<lambda>r. doc_id r = wh_job_id wh \<and> user_id r = uid) (documents v) = d # ds \<Longrightarrow>
   wh_success wh \<Longrightarrow>
   \<exists>v'. api_upload_complete_webhook wh uid v =
           (Inr [(''success'', PBool True), (''message'', PStr ''Processing started''),
                 (''job_id'', PStr (wh_job_id wh))], v') \<and>
         documents v' = documents v \<and>
         tasks v' = tasks v @ [ProcessDocumentTask (wh_job_id wh) (wh_file_path wh) (style_applied d)
            (language_variant d) (case formatting_options d of None \<Rightarrow> [] | Some x \<Rightarrow> x) uid]"
  by (simp add: api_upload_complete_webhook_def api_update_document_status_def io_defs Let_def)

lemma main_webhook_continues:
  "db_faults v = None # Some e # fs \<Longrightarrow>
   filter (\<lambda>r. doc_id r = wh_job_id wh \<and> user_id r = uid) (documents v) = d # ds \<Longrightarrow>
   wh_success wh \<Longrightarrow>
   \<exists>v'. main_upload_complete_webhook wh uid v =
           (Inr [(''success'', PBool True),
                 (''message'', PStr ''Upload confirmed. Document processing started. Status: PROCESSING''),
                 (''job_id'', PStr (wh_job_id wh))], v') \<and>
         documents v' = documents v \<and>
         tasks v' = tasks v @ [SimulateProcessing (wh_job_id wh)]"
  by (simp add: main_upload_complete_webhook_def main_update_document_status_def io_defs Let_def)

lemmas handler_defs = api_upload_complete_webhook_def api_get_document_status_def
  api_download_document_def api_delete_job_def api_create_upload_url_def
  api_generate_signed_upload_url_def api_create_document_record_def
  api_process_document_task_def api_update_document_status_def api_update_data_def
  main_upload_complete_webhook_def main_get_document_status_def main_download_document_def
  main_delete_job_def main_create_upload_url_def main_generate_signed_upload_url_def
  main_create_document_record_def main_simulate_processing_def main_update_document_status_def
  main_update_data_def app_upload_complete_webhook_def reraise_http_def check_file_size_def
  signed_url_attempt_def run_task_def run_next_task_def apply_update_def track_usage_def
  api_upload_document_def api_process_document_def
  track_document_usage_def track_storage_usage_def

lemmas scenario_defs = world1_def job1_def notify1_def env_ok_def env_malformed_def

lemma world_processing_eq:
  "world_processing =
     world1\<lparr> documents := [job1\<lparr>status := ''processing'', processing_log := Some [(''progress'', PInt 0)]\<rparr>],
             tasks := [ProcessDocumentTask ''job-1'' ''documents/alice/17_u1.docx'' ''apa'' ''us''
                         [(''trackedChanges'', PBool True)] ''alice''],
             calls := [\<lparr> c_job_id = ''job-1'', c_status = ''processing'', c_progress = Some 0,
                          c_processing_log = None, c_result_url = None, c_formatting_time = None \<rparr>] \<rparr>"
  by (simp add: world_processing_def handler_defs scenario_defs io_defs Let_def)

text \<open>The rows a lookup by job and owner finds, after a status update of that job.\<close>

lemma filter_after_update:
  "filter (\<lambda>r. doc_id r = j \<and> user_id r = uid)
     (map (\<lambda>r. if doc_id r = j then apply_update u r else r) xs) =
   map (apply_update u) (filter (\<lambda>r. doc_id r = j \<and> user_id r = uid) xs)"
  by (induction xs) (simp_all add: apply_update_def)

text \<open>One accepted completion call, in each of the three copies of the handler.\<close>

lemma api_notify_once:
  assumes "db_faults w = []"
    and "filter (\<lambda>r. doc_id r = wh_job_id wh \<and> user_id r = uid) (documents w) = d # ds"
    and "wh_success wh"
  shows "api_upload_complete_webhook wh uid w =
           (Inr [(''success'', PBool True), (''message'', PStr ''Processing started''),
                 (''job_id'', PStr (wh_job_id wh))],
            w\<lparr> documents := map (\<lambda>r. if doc_id r = wh_job_id wh
                   then apply_update (api_update_data (clock w) ''processing'' (Some 0) None None None) r
                   else r) (documents w),
               tasks := tasks w @ [ProcessDocumentTask (wh_job_id wh) (wh_file_path wh) (style_applied d)
                  (language_variant d) (case formatting_options d of None \<Rightarrow> [] | Some x \<Rightarrow> x) uid],
               calls := calls w @ [\<lparr> c_job_id = wh_job_id wh, c_status = ''processing'', c_progress = Some 0,
                  c_processing_log = None, c_result_url = None, c_formatting_time = None \<rparr>] \<rparr>)"
  using assms
  by (simp add: api_upload_complete_webhook_def api_update_document_status_def io_defs Let_def)

lemma main_notify_once:
  assumes "db_faults w = []"
    and "filter (\<lambda>r. doc_id r = wh_job_id wh \<and> user_id r = uid) (documents w) = d # ds"
    and "wh_success wh"
  shows "main_upload_complete_webhook wh uid w =
           (Inr [(''success'', PBool True),
                 (''message'', PStr ''Upload confirmed. Document processing started. Status: PROCESSING''),
                 (''job_id'', PStr (wh_job_id wh))],
            w\<lparr> documents := map (\<lambda>r. if doc_id r = wh_job_id wh
                   then apply_update (main_update_data (clock w) ''processing'' (Some 0) None) r
                   else r) (documents w),
               tasks := tasks w @ [SimulateProcessing (wh_job_id wh)],
               calls := calls w @ [\<lparr> c_job_id = wh_job_id wh, c_status = ''processing'', c_progress = Some 0,
                  c_processing_log = None, c_result_url = None, c_formatting_time = None \<rparr>] \<rparr>)"
  using assms
  by (simp add: main_upload_complete_webhook_def main_update_document_status_def io_defs Let_def)

lemma app_notify_once:
  assumes "db_faults w = []"
    and "filter (\<lambda>r. doc_id r = wh_job_id wh \<and> user_id r = uid) (documents w) = d # ds"
    and "wh_success wh"
  shows "app_upload_complete_webhook wh uid w =
           (Inr [(''success'', PBool True),
                 (''message'', PStr ''Upload confirmed. Document processing started. Status: PROCESSING''),
                 (''job_id'', PStr (wh_job_id wh))],
            w\<lparr> documents := map (\<lambda>r. if doc_id r = wh_job_id wh
                   then apply_update (main_update_data (clock w) ''processing'' (Some 0) None) r
                   else r) (documents w),
               tasks := tasks w @ [SimulateProcessing (wh_job_id wh)],
               calls := calls w @ [\<lparr> c_job_id = wh_job_id wh, c_status = ''processing'', c_progress = Some 0,
                  c_processing_log = None, c_result_url = None, c_formatting_time = None \<rparr>] \<rparr>)"
  using assms
  by (simp add: app_upload_complete_webhook_def main_update_document_status_def io_defs Let_def)

lemma world_formatted_eq:
  "world_formatted =
     world1\<lparr> documents :=
               [job1\<lparr> status := ''formatted'',
                      processing_log := Some [(''progress'', PInt 100), (''processing_time'', PFloat 2),
                         (''backend'', PStr ''huggingface''), (''message'', PStr ''Formatting successful'')],
                      result_url := Some ''formatted/job-1.docx'', formatting_time := Some 2,
                      processed_at := Some 0 \<rparr>],
             bucket := [(''documents/alice/17_u1.docx'', ''raw text''),
                        (''formatted/job-1.docx'', ''formatted raw text'')],
             calls :=
               [\<lparr> c_job_id = ''job-1'', c_status = ''processing'', c_progress = Some 0,
                   c_processing_log = None, c_result_url = None, c_formatting_time = None \<rparr>,
                \<lparr> c_job_id = ''job-1'', c_status = ''processing'', c_progress = Some 10,
                   c_processing_log = Some [(''message'', PStr ''File downloaded, initializing AI...'')],
                   c_result_url = None, c_formatting_time = None \<rparr>,
                \<lparr> c_job_id = ''job-1'', c_status = ''processing'', c_progress = Some 30,
                   c_processing_log = Some [(''message'', PStr ''Analyzing document structure with huggingface...'')],
                   c_result_url = None, c_formatting_time = None \<rparr>,
                \<lparr> c_job_id = ''job-1'', c_status = ''processing'', c_progress = Some 90,
                   c_processing_log = Some [(''message'', PStr ''Formatting complete. Uploading result...'')],
                   c_result_url = None, c_formatting_time = None \<rparr>,
                \<lparr> c_job_id = ''job-1'', c_status = ''formatted'', c_progress = Some 100,
                   c_processing_log = Some [(''progress'', PInt 100), (''processing_time'', PFloat 2),
                      (''backend'', PStr ''huggingface''), (''message'', PStr ''Formatting successful'')],
                   c_result_url = Some ''formatted/job-1.docx'', c_formatting_time = Some 2 \<rparr>] \<rparr>"
  unfolding world_formatted_def world_processing_eq
  by (simp add: handler_defs scenario_defs io_defs Let_def relative_path_def backend_of_def
      result_filename_def)

text \<open>
  The status-update helper in closed form: the call is recorded, one outcome of the record
  store is used up, and the write reaches the rows of the job unless the store raises.
\<close>

lemma api_update_closed:
  "api_update_document_status j s p l r t w =
     (Inr (),
      w\<lparr> calls := calls w @
             [\<lparr> c_job_id = j, c_status = s, c_progress = p,
                c_processing_log = l, c_result_url = r, c_formatting_time = t \<rparr>],
         db_faults := tl (db_faults w),
         documents :=
           (case db_faults w of
              Some e # fs \<Rightarrow> documents w
            | _ \<Rightarrow> map (\<lambda>x. if doc_id x = j
                             then apply_update (api_update_data (clock w) s p l r t) x else x)
                       (documents w)),
         error_log :=
           (case db_faults w of
              Some e # fs \<Rightarrow> error_log w @ [''Error updating document status: '' @ str e]
            | _ \<Rightarrow> error_log w) \<rparr>)"
  by (cases "db_faults w"; cases "hd (db_faults w)")
     (simp_all add: api_update_document_status_def io_defs Let_def)

lemma main_update_closed:
  "main_update_document_status j s p l w =
     (Inr (),
      w\<lparr> calls := calls w @
             [\<lparr> c_job_id = j, c_status = s, c_progress = p,
                c_processing_log = l, c_result_url = None, c_formatting_time = None \<rparr>],
         db_faults := tl (db_faults w),
         documents :=
           (case db_faults w of
              Some e # fs \<Rightarrow> documents w
            | _ \<Rightarrow> map (\<lambda>x. if doc_id x = j
                             then apply_update (main_update_data (clock w) s p l) x else x)
                       (documents w)),
         error_log :=
           (case db_faults w of
              Some e # fs \<Rightarrow> error_log w @ [''Error updating document status: '' @ str e]
            | _ \<Rightarrow> error_log w) \<rparr>)"
  by (cases "db_faults w"; cases "hd (db_faults w)")
     (simp_all add: main_update_document_status_def io_defs Let_def)

lemmas pipe_defs = io_return_def io_raise_def io_bind_def io_try_def io_finally_def io_lift_def
  logger_error_def st_execute_def storage_download_def storage_upload_def mkdtemp_def rmtree_def

subsection \<open>What a status update leaves in the table\<close>

lemma doc_id_apply_update [simp]: "doc_id (apply_update u x) = doc_id x"
  by (simp add: apply_update_def)

lemma user_id_apply_update [simp]: "user_id (apply_update u x) = user_id x"
  by (simp add: apply_update_def)

lemma map_doc_id_update:
  "map doc_id (map (\<lambda>x. if doc_id x = j then apply_update u x else x) xs) = map doc_id xs"
  by (induction xs) simp_all

text \<open>The rows of job \<open>j\<close> after an update of \<open>j\<close> hold what the update wrote.\<close>

lemma row_is_updated:
  assumes "r \<in> set (map (\<lambda>x. if doc_id x = j then apply_update u x else x) xs)"
    and "doc_id r = j"
  shows "\<exists>x. r = apply_update u x"
proof -
  from assms(1) obtain x where x: "x \<in> set xs"
    and r: "r = (if doc_id x = j then apply_update u x else x)"
    by (auto simp only: set_map image_iff)
  show ?thesis
  proof (cases "doc_id x = j")
    case True
    with r show ?thesis by auto
  next
    case False
    with r assms(2) show ?thesis by simp
  qed
qed

lemma row_after_update:
  assumes "r \<in> set (map (\<lambda>x. if doc_id x = j then apply_update u x else x) xs)"
    and "doc_id r = j"
  shows "status r = u_status u"
    and "u_processing_log u = Some l \<Longrightarrow> processing_log r = Some l"
    and "u_result_url u = Some p \<Longrightarrow> result_url r = Some p"
    and "u_formatting_time u = Some t \<Longrightarrow> formatting_time r = Some t"
proof -
  from row_is_updated [OF assms] obtain x where r: "r = apply_update u x" ..
  show "status r = u_status u" by (simp add: r apply_update_def)
  show "u_processing_log u = Some l \<Longrightarrow> processing_log r = Some l"
    by (simp add: r apply_update_def)
  show "u_result_url u = Some p \<Longrightarrow> result_url r = Some p"
    by (simp add: r apply_update_def)
  show "u_formatting_time u = Some t \<Longrightarrow> formatting_time r = Some t"
    by (simp add: r apply_update_def)
qed

subsection \<open>Runs of the real pipeline\<close>

text \<open>
  For a run in which fetch, transformation and store succeed, and for each step at which
  a run can fail: the calls of the status-update helper the run makes, whatever the record
  store does, and the shape of the table after the run when the record store answers.
\<close>

lemma api_run_success_calls:
  assumes "st_faults w = []"
    and "map_of (bucket w) (relative_path path) = Some content"
    and "AdvancedFormatter env style
           (if backend_of env = ''gemini'' then GeminiClient else HuggingFaceClient) = Inr fmt"
    and "fmt content = Inr output"
  shows "calls (snd (api_process_document_task env job path style variant options uid w)) =
           calls w @
             [\<lparr> c_job_id = job, c_status = ''processing'', c_progress = Some 10,
                c_processing_log = Some [(''message'', PStr ''File downloaded, initializing AI...'')],
                c_result_url = None, c_formatting_time = None \<rparr>,
              \<lparr> c_job_id = job, c_status = ''processing'', c_progress = Some 30,
                c_processing_log =
                  Some [(''message'', PStr (''Analyzing document structure with '' @ backend_of env @ ''...''))],
                c_result_url = None, c_formatting_time = None \<rparr>,
              \<lparr> c_job_id = job, c_status = ''processing'', c_progress = Some 90,
                c_processing_log = Some [(''message'', PStr ''Formatting complete. Uploading result...'')],
                c_result_url = None, c_formatting_time = None \<rparr>,
              \<lparr> c_job_id = job, c_status = ''formatted'', c_progress = Some 100,
                c_processing_log =
                  Some [(''progress'', PInt 100), (''processing_time'', PFloat (elapsed env)),
                        (''backend'', PStr (backend_of env)), (''message'', PStr ''Formatting successful'')],
                c_result_url = Some (result_filename job), c_formatting_time = Some (elapsed env) \<rparr>]"
  using assms
  by (simp add: api_process_document_task_def api_update_closed pipe_defs)

lemma api_run_success_docs:
  assumes "db_faults w = []"
    and "st_faults w = []"
    and "map_of (bucket w) (relative_path path) = Some content"
    and "AdvancedFormatter env style
           (if backend_of env = ''gemini'' then GeminiClient else HuggingFaceClient) = Inr fmt"
    and "fmt content = Inr output"
  shows "\<exists>xs. documents (snd (api_process_document_task env job path style variant options uid w)) =
           map (\<lambda>x. if doc_id x = job then apply_update (api_update_data (clock w) ''formatted'' (Some 100)
                              (Some [(''progress'', PInt 100), (''processing_time'', PFloat (elapsed env)),
                                     (''backend'', PStr (backend_of env)),
                                     (''message'', PStr ''Formatting successful'')])
                              (Some (result_filename job)) (Some (elapsed env))) x else x) xs \<and>
           map doc_id xs = map doc_id (documents w)"
  using assms
  apply (simp add: api_process_document_task_def api_update_closed pipe_defs del: map_map
      cong del: if_weak_cong)
  apply (rule exI, rule conjI, rule refl)
  apply (simp add: map_doc_id_update del: map_map)
  done

lemma api_run_fetch_fault_calls:
  assumes "st_faults w = Some e # fs"
  shows "calls (snd (api_process_document_task env job path style variant options uid w)) =
           calls w @
             [\<lparr> c_job_id = job, c_status = ''failed'', c_progress = Some 0,
                c_processing_log = Some [(''error'', PStr (classify (str e)))],
                c_result_url = None, c_formatting_time = None \<rparr>]"
  using assms
  by (simp add: api_process_document_task_def api_update_closed pipe_defs)

lemma api_run_fetch_missing_calls:
  assumes "st_faults w = []"
    and "map_of (bucket w) (relative_path path) = None"
  shows "calls (snd (api_process_document_task env job path style variant options uid w)) =
           calls w @
             [\<lparr> c_job_id = job, c_status = ''failed'', c_progress = Some 0,
                c_processing_log = Some [(''error'', PStr (classify (''Object not found'')))],
                c_result_url = None, c_formatting_time = None \<rparr>]"
  using assms
  by (simp add: api_process_document_task_def api_update_closed pipe_defs)

lemma api_run_engine_fault_calls:
  assumes "st_faults w = []"
    and "map_of (bucket w) (relative_path path) = Some content"
    and "AdvancedFormatter env style
           (if backend_of env = ''gemini'' then GeminiClient else HuggingFaceClient) = Inl e"
  shows "calls (snd (api_process_document_task env job path style variant options uid w)) =
           calls w @
             [\<lparr> c_job_id = job, c_status = ''processing'', c_progress = Some 10,
                c_processing_log = Some [(''message'', PStr ''File downloaded, initializing AI...'')],
                c_result_url = None, c_formatting_time = None \<rparr>,
              \<lparr> c_job_id = job, c_status = ''failed'', c_progress = Some 0,
                c_processing_log = Some [(''error'', PStr (classify (str e)))],
                c_result_url = None, c_formatting_time = None \<rparr>]"
  using assms
  by (simp add: api_process_document_task_def api_update_closed pipe_defs)

lemma api_run_transform_fault_calls:
  assumes "st_faults w = []"
    and "map_of (bucket w) (relative_path path) = Some content"
    and "AdvancedFormatter env style
           (if backend_of env = ''gemini'' then GeminiClient else HuggingFaceClient) = Inr fmt"
    and "fmt content = Inl e"
  shows "calls (snd (api_process_document_task env job path style variant options uid w)) =
           calls w @
             [\<lparr> c_job_id = job, c_status = ''processing'', c_progress = Some 10,
                c_processing_log = Some [(''message'', PStr ''File downloaded, initializing AI...'')],
                c_result_url = None, c_formatting_time = None \<rparr>,
              \<lparr> c_job_id = job, c_status = ''processing'', c_progress = Some 30,
                c_processing_log =
                  Some [(''message'', PStr (''Analyzing document structure with '' @ backend_of env @ ''...''))],
                c_result_url = None, c_formatting_time = None \<rparr>,
              \<lparr> c_job_id = job, c_status = ''failed'', c_progress = Some 0,
                c_processing_log = Some [(''error'', PStr (classify (str e)))],
                c_result_url = None, c_formatting_time = None \<rparr>]"
  using assms
  by (simp add: api_process_document_task_def api_update_closed pipe_defs)

lemma api_run_store_fault_calls:
  assumes "st_faults w = None # Some e # fs"
    and "map_of (bucket w) (relative_path path) = Some content"
    and "AdvancedFormatter env style
           (if backend_of env = ''gemini'' then GeminiClient else HuggingFaceClient) = Inr fmt"
    and "fmt content = Inr output"
  shows "calls (snd (api_process_document_task env job path style variant options uid w)) =
           calls w @
             [\<lparr> c_job_id = job, c_status = ''processing'', c_progress = Some 10,
                c_processing_log = Some [(''message'', PStr ''File downloaded, initializing AI...'')],
                c_result_url = None, c_formatting_time = None \<rparr>,
              \<lparr> c_job_id = job, c_status = ''processing'', c_progress = Some 30,
                c_processing_log =
                  Some [(''message'', PStr (''Analyzing document structure with '' @ backend_of env @ ''...''))],
                c_result_url = None, c_formatting_time = None \<rparr>,
              \<lparr> c_job_id = job, c_status = ''processing'', c_progress = Some 90,
                c_processing_log = Some [(''message'', PStr ''Formatting complete. Uploading result...'')],
                c_result_url = None, c_formatting_time = None \<rparr>,
              \<lparr> c_job_id = job, c_status = ''failed'', c_progress = Some 0,
                c_processing_log = Some [(''error'', PStr (classify (str e)))],
                c_result_url = None, c_formatting_time = None \<rparr>]"
  using assms
  by (simp add: api_process_document_task_def api_update_closed pipe_defs)

subsection \<open>Runs of the simulation\<close>

lemma track_usage_returns:
  "fst (track_usage job w) = Inr ()"
  "calls (snd (track_usage job w)) = calls w"
  "documents (snd (track_usage job w)) = documents w"
  "tasks (snd (track_usage job w)) = tasks w"
  "bucket (snd (track_usage job w)) = bucket w"
  by (simp_all add: track_usage_def track_document_usage_def track_storage_usage_def io_defs
      split: list.split option.split)

lemma main_run_calls:
  "calls (snd (main_simulate_processing job w)) =
     calls w @
       [\<lparr> c_job_id = job, c_status = ''processing'', c_progress = Some 25,
          c_processing_log = None, c_result_url = None, c_formatting_time = None \<rparr>,
        \<lparr> c_job_id = job, c_status = ''processing'', c_progress = Some 75,
          c_processing_log = None, c_result_url = None, c_formatting_time = None \<rparr>,
        \<lparr> c_job_id = job, c_status = ''formatted'', c_progress = Some 100,
          c_processing_log = Some [(''progress'', PInt 100), (''word_count'', PInt 1250),
                                   (''processing_time'', PFloat 3.5)],
          c_result_url = None, c_formatting_time = None \<rparr>]"
  by (simp add: main_simulate_processing_def main_update_closed sleep_def io_bind_def io_try_def
      case_prod_beta track_usage_returns)

lemma main_run_docs:
  assumes "db_faults w = []"
  shows "\<exists>now xs. documents (snd (main_simulate_processing job w)) =
           map (\<lambda>x. if doc_id x = job
                    then apply_update
                           (main_update_data now ''formatted'' (Some 100)
                              (Some [(''progress'', PInt 100), (''word_count'', PInt 1250),
                                     (''processing_time'', PFloat 3.5)])) x
                    else x) xs \<and>
           map doc_id xs = map doc_id (documents w)"
  using assms
  apply (simp add: main_simulate_processing_def main_update_closed sleep_def io_bind_def io_try_def
      case_prod_beta track_usage_returns del: map_map cong del: if_weak_cong)
  apply (rule exI, rule exI, rule conjI, rule refl)
  apply (simp add: map_doc_id_update del: map_map)
  done

lemmas call_defs = call_0_def call_10_def call_30_def call_90_def call_100_def call_failed_def
  sim_call_def sim_call_100_def

subsection \<open>The completion handler followed by the run it started\<close>

text \<open>
  On an idle event loop the task the completion handler creates is the next to run; it
  runs in the world the handler left.
\<close>

lemma api_notify_then_run:
  assumes "db_faults w = []" and "tasks w = []"
    and "filter (\<lambda>r. doc_id r = wh_job_id wh \<and> user_id r = uid) (documents w) = d # ds"
    and "wh_success wh"
  shows "run_next_task env (snd (api_upload_complete_webhook wh uid w)) =
           snd (api_process_document_task env (wh_job_id wh) (wh_file_path wh) (style_applied d)
                  (language_variant d) (case formatting_options d of None \<Rightarrow> [] | Some x \<Rightarrow> x) uid
                  (w\<lparr> documents := map (\<lambda>r. if doc_id r = wh_job_id wh
                          then apply_update (api_update_data (clock w) ''processing'' (Some 0) None None None) r
                          else r) (documents w),
                      calls := calls w @ [call_0 (wh_job_id wh)] \<rparr>))"
proof -
  have idle: "v\<lparr>tasks := []\<rparr> = v" if "tasks v = []" for v :: world
    using that by (cases v) simp
  show ?thesis
    by (simp add: api_notify_once [OF assms(1) assms(3) assms(4)] run_next_task_def run_task_def
        assms(2) call_0_def idle)
qed

lemma main_notify_then_run:
  assumes "db_faults w = []" and "tasks w = []"
    and "filter (\<lambda>r. doc_id r = wh_job_id wh \<and> user_id r = uid) (documents w) = d # ds"
    and "wh_success wh"
  shows "run_next_task env (snd (main_upload_complete_webhook wh uid w)) =
           snd (main_simulate_processing (wh_job_id wh)
                  (w\<lparr> documents := map (\<lambda>r. if doc_id r = wh_job_id wh
                          then apply_update (main_update_data (clock w) ''processing'' (Some 0) None) r
                          else r) (documents w),
                      calls := calls w @ [call_0 (wh_job_id wh)] \<rparr>))"
proof -
  have idle: "v\<lparr>tasks := []\<rparr> = v" if "tasks v = []" for v :: world
    using that by (cases v) simp
  show ?thesis
    by (simp add: main_notify_once [OF assms(1) assms(3) assms(4)] run_next_task_def run_task_def
        assms(2) call_0_def idle)
qed

lemma api_run_success_bucket:
  assumes "st_faults w = []"
    and "map_of (bucket w) (relative_path path) = Some content"
    and "AdvancedFormatter env style
           (if backend_of env = ''gemini'' then GeminiClient else HuggingFaceClient) = Inr fmt"
    and "fmt content = Inr output"
  shows "map_of (bucket (snd (api_process_document_task env job path style variant options uid w)))
           (result_filename job) = Some output"
  using assms
  by (simp add: api_process_document_task_def api_update_closed pipe_defs update_Some_unfold)

lemma world_failed_eq:
  "world_failed =
     world1\<lparr> documents :=
               [job1\<lparr> status := ''failed'',
                      processing_log :=
                        Some [(''error'', PStr ''Formatting failed: AI response was malformed. Please try again.''),
                              (''progress'', PInt 0)] \<rparr>],
             calls :=
               [\<lparr> c_job_id = ''job-1'', c_status = ''processing'', c_progress = Some 0,
                   c_processing_log = None, c_result_url = None, c_formatting_time = None \<rparr>,
                \<lparr> c_job_id = ''job-1'', c_status = ''processing'', c_progress = Some 10,
                   c_processing_log = Some [(''message'', PStr ''File downloaded, initializing AI...'')],
                   c_result_url = None, c_formatting_time = None \<rparr>,
                \<lparr> c_job_id = ''job-1'', c_status = ''processing'', c_progress = Some 30,
                   c_processing_log = Some [(''message'', PStr ''Analyzing document structure with huggingface...'')],
                   c_result_url = None, c_formatting_time = None \<rparr>,
                \<lparr> c_job_id = ''job-1'', c_status = ''failed'', c_progress = Some 0,
                   c_processing_log =
                     Some [(''error'', PStr ''Formatting failed: AI response was malformed. Please try again.'')],
                   c_result_url = None, c_formatting_time = None \<rparr>],
             error_log := [''Job job-1 failed: JSON Parsing Error: Unexpected end of input''] \<rparr>"
  unfolding world_failed_def world_processing_eq
  by (simp add: handler_defs scenario_defs io_defs Let_def relative_path_def backend_of_def
      result_filename_def classify_def)

text \<open>
  The status-update helper called with a recorded call, and calls made one after the
  other: what they leave in the world.
\<close>

lemma issue_closed:
  "issue c w =
     (Inr (),
      w\<lparr> calls := calls w @ [c],
         db_faults := tl (db_faults w),
         documents :=
           (case db_faults w of
              Some e # fs \<Rightarrow> documents w
            | _ \<Rightarrow> map (\<lambda>x. if doc_id x = c_job_id c
                             then apply_update (api_update_data (clock w) (c_status c) (c_progress c)
                                    (c_processing_log c) (c_result_url c) (c_formatting_time c)) x
                             else x)
                       (documents w)),
         error_log :=
           (case db_faults w of
              Some e # fs \<Rightarrow> error_log w @ [''Error updating document status: '' @ str e]
            | _ \<Rightarrow> error_log w) \<rparr>)"
  by (simp add: issue_def api_update_closed)

lemma issue_all_simps:
  "issue_all [] w = w"
  "issue_all (c # cs) w = issue_all cs (snd (issue c w))"
  by (simp_all add: issue_all_def)

lemma issue_all_append: "issue_all (cs @ [c]) w = snd (issue c (issue_all cs w))"
  by (simp add: issue_all_def)

lemma issue_all_fields:
  "db_faults (issue_all cs w) = drop (length cs) (db_faults w)"
  "clock (issue_all cs w) = clock w"
  "calls (issue_all cs w) = calls w @ cs"
  "map doc_id (documents (issue_all cs w)) = map doc_id (documents w)"
  "bucket (issue_all cs w) = bucket w"
  "tasks (issue_all cs w) = tasks w"
  "st_faults (issue_all cs w) = st_faults w"
proof (induction cs arbitrary: w)
  case Nil
  { case 1 show ?case by (simp add: issue_all_simps) }
  { case 2 show ?case by (simp add: issue_all_simps) }
  { case 3 show ?case by (simp add: issue_all_simps) }
  { case 4 show ?case by (simp add: issue_all_simps) }
  { case 5 show ?case by (simp add: issue_all_simps) }
  { case 6 show ?case by (simp add: issue_all_simps) }
  { case 7 show ?case by (simp add: issue_all_simps) }
next
  case (Cons c cs)
  { case 1 show ?case by (simp add: issue_all_simps Cons.IH issue_closed drop_Suc) }
  { case 2 show ?case by (simp add: issue_all_simps Cons.IH issue_closed) }
  { case 3 show ?case by (simp add: issue_all_simps Cons.IH issue_closed) }
  { case 4 show ?case by (simp add: issue_all_simps Cons.IH issue_closed map_doc_id_update split: list.split option.split) }
  { case 5 show ?case by (simp add: issue_all_simps Cons.IH issue_closed) }
  { case 6 show ?case by (simp add: issue_all_simps Cons.IH issue_closed) }
  { case 7 show ?case by (simp add: issue_all_simps Cons.IH issue_closed) }
qed


lemma api_run_fetch_fault_steps:
  assumes "st_faults w = Some e # fs"
  shows "documents (snd (api_process_document_task env job path style variant options uid w)) =
           documents (issue_all [call_failed job (str e)] w)"
  using assms
  by (simp add: api_process_document_task_def api_update_closed pipe_defs issue_all_simps issue_closed call_defs
      cong del: if_weak_cong list.case_cong_weak option.case_cong_weak)

lemma api_run_fetch_missing_steps:
  assumes "st_faults w = []"
    and "map_of (bucket w) (relative_path path) = None"
  shows "documents (snd (api_process_document_task env job path style variant options uid w)) =
           documents (issue_all [call_failed job ''Object not found''] w)"
  using assms
  by (simp add: api_process_document_task_def api_update_closed pipe_defs issue_all_simps issue_closed call_defs
      cong del: if_weak_cong list.case_cong_weak option.case_cong_weak)

lemma api_run_engine_fault_steps:
  assumes "st_faults w = []"
    and "map_of (bucket w) (relative_path path) = Some content"
    and "AdvancedFormatter env style
           (if backend_of env = ''gemini'' then GeminiClient else HuggingFaceClient) = Inl e"
  shows "documents (snd (api_process_document_task env job path style variant options uid w)) =
           documents (issue_all [call_10 job, call_failed job (str e)] w)"
  using assms
  by (simp add: api_process_document_task_def api_update_closed pipe_defs issue_all_simps issue_closed call_defs
      cong del: if_weak_cong list.case_cong_weak option.case_cong_weak)

lemma api_run_transform_fault_steps:
  assumes "st_faults w = []"
    and "map_of (bucket w) (relative_path path) = Some content"
    and "AdvancedFormatter env style
           (if backend_of env = ''gemini'' then GeminiClient else HuggingFaceClient) = Inr fmt"
    and "fmt content = Inl e"
  shows "documents (snd (api_process_document_task env job path style variant options uid w)) =
           documents (issue_all [call_10 job, call_30 env job, call_failed job (str e)] w)"
  using assms
  by (simp add: api_process_document_task_def api_update_closed pipe_defs issue_all_simps issue_closed call_defs
      cong del: if_weak_cong list.case_cong_weak option.case_cong_weak)

lemma api_run_store_fault_steps:
  assumes "st_faults w = None # Some e # fs"
    and "map_of (bucket w) (relative_path path) = Some content"
    and "AdvancedFormatter env style
           (if backend_of env = ''gemini'' then GeminiClient else HuggingFaceClient) = Inr fmt"
    and "fmt content = Inr result"
  shows "documents (snd (api_process_document_task env job path style variant options uid w)) =
           documents (issue_all [call_10 job, call_30 env job, call_90 job, call_failed job (str e)] w)"
  using assms
  by (simp add: api_process_document_task_def api_update_closed pipe_defs issue_all_simps issue_closed call_defs
      cong del: if_weak_cong list.case_cong_weak option.case_cong_weak)

lemma last_write_accepted:
  assumes "answers_at (length pre) w"
  shows "documents (issue_all (pre @ [c]) w) =
           map (\<lambda>x. if doc_id x = c_job_id c
                    then apply_update (api_update_data (clock w) (c_status c) (c_progress c)
                           (c_processing_log c) (c_result_url c) (c_formatting_time c)) x
                    else x)
               (documents (issue_all pre w))"
proof (cases "drop (length pre) (db_faults w)")
  case Nil
  then show ?thesis
    by (simp add: issue_all_append issue_closed issue_all_fields)
next
  case (Cons a fs)
  with assms have "a = None"
    by (cases a) (simp_all add: answers_at_def)
  with Cons show ?thesis
    by (simp add: issue_all_append issue_closed issue_all_fields)
qed

lemma last_write_dropped:
  assumes "\<not> answers_at (length pre) w"
  shows "documents (issue_all (pre @ [c]) w) = documents (issue_all pre w)"
proof -
  from assms obtain e fs where "drop (length pre) (db_faults w) = Some e # fs"
    by (auto simp add: answers_at_def split: list.splits option.splits)
  then show ?thesis
    by (simp add: issue_all_append issue_closed issue_all_fields)
qed

lemma run_failed_withI:
  assumes "calls w' = calls w @ pre @ [call_failed job msg]"
    and "documents w' = documents (issue_all (pre @ [call_failed job msg]) w)"
    and "filter (\<lambda>c. c_status c = ''failed'') pre = []"
  shows "run_failed_with job pre msg w w'"
proof -
  let ?c = "call_failed job msg"
  let ?u = "api_update_data (clock w) ''failed'' (Some 0) (Some [(''error'', PStr (classify msg))]) None None"
  have i: "map doc_id (documents w') = map doc_id (documents w)"
    by (simp only: assms(2) issue_all_fields)
  have f: "filter (\<lambda>c. c_status c = ''failed'') (pre @ [?c]) = [?c]"
    using assms(3) by (simp add: call_failed_def)
  have u: "u_status ?u = ''failed''"
    "u_processing_log ?u = Some [(''error'', PStr (classify msg)), (''progress'', PInt 0)]"
    by (simp_all add: api_update_data_def)
  have c: "c_job_id ?c = job" "c_status ?c = ''failed''" "c_progress ?c = Some 0"
    "c_processing_log ?c = Some [(''error'', PStr (classify msg))]" "c_result_url ?c = None"
    "c_formatting_time ?c = None"
    by (simp_all add: call_failed_def)
  have r: "status r = ''failed'' \<and>
           processing_log r = Some [(''error'', PStr (classify msg)), (''progress'', PInt 0)]"
    if a: "answers_at (length pre) w" and "r \<in> set (documents w')" "doc_id r = job" for r
  proof -
    have d: "documents w' = map (\<lambda>x. if doc_id x = job then apply_update ?u x else x)
                              (documents (issue_all pre w))"
      unfolding assms(2) last_write_accepted [OF a] c ..
    from that(2) have m: "r \<in> set (map (\<lambda>x. if doc_id x = job then apply_update ?u x else x)
                                     (documents (issue_all pre w)))"
      by (simp only: d)
    show ?thesis
      using row_after_update(1) [OF m that(3)] row_after_update(2) [OF m that(3) u(2)] u(1)
      by simp
  qed
  have n: "documents w' = documents (issue_all pre w)" if a: "\<not> answers_at (length pre) w"
    unfolding assms(2) by (rule last_write_dropped [OF a])
  from assms(1) f i r n show ?thesis
    unfolding run_failed_with_def by auto
qed

text \<open>A completed run of each strategy, started by its completion handler on an idle event loop.\<close>

lemma api_completed_run:
  assumes "db_faults w = []" and "tasks w = []"
    and "filter (\<lambda>r. doc_id r = wh_job_id wh \<and> user_id r = uid) (documents w) = d # ds"
    and "wh_success wh"
    and "st_faults w = []"
    and "map_of (bucket w) (relative_path (wh_file_path wh)) = Some content"
    and "AdvancedFormatter env (style_applied d)
           (if backend_of env = ''gemini'' then GeminiClient else HuggingFaceClient) = Inr fmt"
    and "fmt content = Inr result"
  shows "calls (run_next_task env (snd (api_upload_complete_webhook wh uid w))) =
           calls w @ [call_0 (wh_job_id wh), call_10 (wh_job_id wh), call_30 env (wh_job_id wh),
                      call_90 (wh_job_id wh), call_100 env (wh_job_id wh)] \<and>
         map doc_id (documents (run_next_task env (snd (api_upload_complete_webhook wh uid w)))) =
           map doc_id (documents w) \<and>
         (\<forall>r \<in> set (documents (run_next_task env (snd (api_upload_complete_webhook wh uid w)))).
            doc_id r = wh_job_id wh \<longrightarrow>
              status r = ''formatted'' \<and>
              processing_log r =
                Some [(''progress'', PInt 100), (''processing_time'', PFloat (elapsed env)),
                      (''backend'', PStr (backend_of env)), (''message'', PStr ''Formatting successful'')] \<and>
              result_url r = Some (result_filename (wh_job_id wh)) \<and>
              formatting_time r = Some (elapsed env)) \<and>
         map_of (bucket (run_next_task env (snd (api_upload_complete_webhook wh uid w))))
           (result_filename (wh_job_id wh)) = Some result"
proof -
  let ?job = "wh_job_id wh"
  let ?w1 = "w\<lparr> documents := map (\<lambda>r. if doc_id r = ?job
                          then apply_update (api_update_data (clock w) ''processing'' (Some 0) None None None) r
                          else r) (documents w),
                calls := calls w @ [call_0 ?job] \<rparr>"
  let ?opts = "case formatting_options d of None \<Rightarrow> [] | Some x \<Rightarrow> x"
  let ?end = "run_next_task env (snd (api_upload_complete_webhook wh uid w))"
  have run: "?end = snd (api_process_document_task env ?job (wh_file_path wh) (style_applied d)
                          (language_variant d) ?opts uid ?w1)"
    by (rule api_notify_then_run [OF assms(1-4)])
  have w1: "db_faults ?w1 = []" "calls ?w1 = calls w @ [call_0 ?job]"
    "map doc_id (documents ?w1) = map doc_id (documents w)"
    using assms(1) by (simp_all add: map_doc_id_update)
  have s: "st_faults ?w1 = []" "map_of (bucket ?w1) (relative_path (wh_file_path wh)) = Some content"
    using assms(5,6) by simp_all
  have c: "calls ?end = calls w @ [call_0 ?job, call_10 ?job, call_30 env ?job, call_90 ?job,
                                   call_100 env ?job]"
    unfolding run api_run_success_calls [OF s assms(7) assms(8)]
    by (simp add: w1(2) call_defs)
  have b: "map_of (bucket ?end) (result_filename ?job) = Some result"
    unfolding run by (rule api_run_success_bucket [OF s assms(7) assms(8)])
  let ?u = "api_update_data (clock ?w1) ''formatted'' (Some 100)
              (Some [(''progress'', PInt 100), (''processing_time'', PFloat (elapsed env)),
                     (''backend'', PStr (backend_of env)), (''message'', PStr ''Formatting successful'')])
              (Some (result_filename ?job)) (Some (elapsed env))"
  from api_run_success_docs [OF w1(1) s assms(7) assms(8), of ?job "language_variant d" ?opts uid]
  obtain xs where xs: "documents ?end = map (\<lambda>x. if doc_id x = ?job then apply_update ?u x else x) xs"
    and ids: "map doc_id xs = map doc_id (documents ?w1)"
    unfolding run by blast
  have i: "map doc_id (documents ?end) = map doc_id (documents w)"
    by (simp only: xs map_doc_id_update ids w1(3))
  have u: "u_status ?u = ''formatted''"
    "u_processing_log ?u =
       Some [(''progress'', PInt 100), (''processing_time'', PFloat (elapsed env)),
             (''backend'', PStr (backend_of env)), (''message'', PStr ''Formatting successful'')]"
    "u_result_url ?u = Some (result_filename ?job)"
    "u_formatting_time ?u = Some (elapsed env)"
    by (simp_all add: api_update_data_def result_filename_def)
  have r: "status r = ''formatted'' \<and>
           processing_log r =
             Some [(''progress'', PInt 100), (''processing_time'', PFloat (elapsed env)),
                   (''backend'', PStr (backend_of env)), (''message'', PStr ''Formatting successful'')] \<and>
           result_url r = Some (result_filename ?job) \<and>
           formatting_time r = Some (elapsed env)"
    if "r \<in> set (documents ?end)" "doc_id r = ?job" for r
  proof -
    from that(1) have m: "r \<in> set (map (\<lambda>x. if doc_id x = ?job then apply_update ?u x else x) xs)"
      by (simp only: xs)
    show ?thesis
      using row_after_update(1) [OF m that(2)] row_after_update(2) [OF m that(2) u(2)]
        row_after_update(3) [OF m that(2) u(3)] row_after_update(4) [OF m that(2) u(4)] u(1)
      by simp
  qed
  from c i r b show ?thesis by blast
qed

lemma main_completed_run:
  assumes "db_faults w = []" and "tasks w = []"
    and "filter (\<lambda>r. doc_id r = wh_job_id wh \<and> user_id r = uid) (documents w) = d # ds"
    and "wh_success wh"
  shows "calls (run_next_task env (snd (main_upload_complete_webhook wh uid w))) =
           calls w @ [call_0 (wh_job_id wh), sim_call (wh_job_id wh) 25, sim_call (wh_job_id wh) 75,
                      sim_call_100 (wh_job_id wh)] \<and>
         map doc_id (documents (run_next_task env (snd (main_upload_complete_webhook wh uid w)))) =
           map doc_id (documents w) \<and>
         (\<forall>r \<in> set (documents (run_next_task env (snd (main_upload_complete_webhook wh uid w)))).
            doc_id r = wh_job_id wh \<longrightarrow>
              status r = ''formatted'' \<and>
              processing_log r =
                Some [(''progress'', PInt 100), (''word_count'', PInt 1250),
                      (''processing_time'', PFloat 3.5)])"
proof -
  let ?job = "wh_job_id wh"
  let ?w1 = "w\<lparr> documents := map (\<lambda>r. if doc_id r = ?job
                          then apply_update (main_update_data (clock w) ''processing'' (Some 0) None) r
                          else r) (documents w),
                calls := calls w @ [call_0 ?job] \<rparr>"
  let ?end = "run_next_task env (snd (main_upload_complete_webhook wh uid w))"
  let ?log = "[(''progress'', PInt 100), (''word_count'', PInt 1250), (''processing_time'', PFloat 3.5)]"
  have run: "?end = snd (main_simulate_processing ?job ?w1)"
    by (rule main_notify_then_run [OF assms(1-4)])
  have w1: "db_faults ?w1 = []" "calls ?w1 = calls w @ [call_0 ?job]"
    "map doc_id (documents ?w1) = map doc_id (documents w)"
    using assms(1) by (simp_all add: map_doc_id_update)
  have c: "calls ?end = calls w @ [call_0 ?job, sim_call ?job 25, sim_call ?job 75, sim_call_100 ?job]"
    unfolding run main_run_calls by (simp add: w1(2) call_defs)
  from main_run_docs [OF w1(1), of ?job]
  obtain now xs
    where xs: "documents ?end =
                 map (\<lambda>x. if doc_id x = ?job
                          then apply_update (main_update_data now ''formatted'' (Some 100) (Some ?log)) x
                          else x) xs"
      and ids: "map doc_id xs = map doc_id (documents ?w1)"
    unfolding run by blast
  let ?u = "main_update_data now ''formatted'' (Some 100) (Some ?log)"
  have i: "map doc_id (documents ?end) = map doc_id (documents w)"
    by (simp only: xs map_doc_id_update ids w1(3))
  have u: "u_status ?u = ''formatted''" "u_processing_log ?u = Some ?log"
    by (simp_all add: main_update_data_def)
  have r: "status r = ''formatted'' \<and> processing_log r = Some ?log"
    if "r \<in> set (documents ?end)" "doc_id r = ?job" for r
  proof -
    from that(1) have m: "r \<in> set (map (\<lambda>x. if doc_id x = ?job then apply_update ?u x else x) xs)"
      by (simp only: xs)
    show ?thesis
      using row_after_update(1) [OF m that(2)] row_after_update(2) [OF m that(2) u(2)] u(1)
      by simp
  qed
  from c i r show ?thesis by blast
qed

lemma world_simulated_eq:
  "world_simulated =
     world1\<lparr> documents :=
               [job1\<lparr> status := ''formatted'', updated_at := 4,
                      processing_log := Some [(''progress'', PInt 100), (''word_count'', PInt 1250),
                                              (''processing_time'', PFloat 3.5)],
                      processed_at := Some 4 \<rparr>],
             clock := 4,
             calls :=
               [\<lparr> c_job_id = ''job-1'', c_status = ''processing'', c_progress = Some 0,
                   c_processing_log = None, c_result_url = None, c_formatting_time = None \<rparr>,
                \<lparr> c_job_id = ''job-1'', c_status = ''processing'', c_progress = Some 25,
                   c_processing_log = None, c_result_url = None, c_formatting_time = None \<rparr>,
                \<lparr> c_job_id = ''job-1'', c_status = ''processing'', c_progress = Some 75,
                   c_processing_log = None, c_result_url = None, c_formatting_time = None \<rparr>,
                \<lparr> c_job_id = ''job-1'', c_status = ''formatted'', c_progress = Some 100,
                   c_processing_log = Some [(''progress'', PInt 100), (''word_count'', PInt 1250),
                                            (''processing_time'', PFloat 3.5)],
                   c_result_url = None, c_formatting_time = None \<rparr>] \<rparr>"
  unfolding world_simulated_def
  by (simp add: handler_defs scenario_defs io_defs Let_def)

subsection \<open>Computations that keep the invariant\<close>




























subsection \<open>The scenarios are reachable\<close>










text \<open>A run during which the record store is down: it goes to its end and nothing is recorded.\<close>

lemma api_run_unrecorded:
  assumes "db_faults v = [Some e1, Some e2, Some e3, Some e4]"
    and "st_faults v = []"
    and "map_of (bucket v) (relative_path path) = Some content"
    and "AdvancedFormatter env style
           (if backend_of env = ''gemini'' then GeminiClient else HuggingFaceClient) = Inr fmt"
    and "fmt content = Inr result"
  shows "fst (api_process_document_task env job path style variant options uid v) = Inr () \<and>
         documents (snd (api_process_document_task env job path style variant options uid v)) =
           documents v \<and>
         calls (snd (api_process_document_task env job path style variant options uid v)) =
           calls v @ [call_10 job, call_30 env job, call_90 job, call_100 env job] \<and>
         map_of (bucket (snd (api_process_document_task env job path style variant options uid v)))
           (result_filename job) = Some result \<and>
         error_log (snd (api_process_document_task env job path style variant options uid v)) =
           error_log v @
             [''Error updating document status: '' @ str e1,
              ''Error updating document status: '' @ str e2,
              ''Error updating document status: '' @ str e3,
              ''Error updating document status: '' @ str e4]"
  using assms
  by (simp add: api_process_document_task_def api_update_closed pipe_defs call_defs
      update_Some_unfold)

subsection \<open>What the status reporter answers between the calls of a run\<close>












subsection \<open>Failure paths, and the result location in the simulated strategy\<close>















section \<open>The claims\<close>

text \<open>
  C10. The status-update helper returns normally for every input, in \<open>api.py\<close> and in
  \<open>main.py\<close>: no job id, status, progress, log, result location, duration or state of the
  world makes it raise. When the record store raises \<open>e\<close> on the write, the exception is
  caught, one line goes to the error log and the table is left as it was. The request
  handler that called the helper goes on as if the write had been recorded: with the
  ownership lookup answered and the write to \<open>processing\<close> failing, the completion handler
  still creates the processing task and answers \<open>success = True\<close>, while the table is
  unchanged (the job keeps its old status). The pipeline goes on in the same way: with
  the record store down at each of its four writes, a run whose fetch, transformation and
  store succeed makes all four calls, uploads the result and returns, and the table is
  unchanged.
\<close>

theorem update_document_status_never_raises:
  "(\<exists>w'. api_update_document_status j s p l r t w = (Inr (), w') \<and>
         (db_faults w = Some e # fs \<longrightarrow>
            documents w' = documents w \<and>
            error_log w' = error_log w @ [''Error updating document status: '' @ str e])) \<and>
   (\<exists>w'. main_update_document_status j s p l w = (Inr (), w') \<and>
         (db_faults w = Some e # fs \<longrightarrow>
            documents w' = documents w \<and>
            error_log w' = error_log w @ [''Error updating document status: '' @ str e])) \<and>
   (db_faults v = None # Some e # fs \<and>
    filter (\<lambda>r. doc_id r = wh_job_id wh \<and> user_id r = uid) (documents v) = d # ds \<and>
    wh_success wh \<longrightarrow>
      (\<exists>v'. api_upload_complete_webhook wh uid v =
              (Inr [(''success'', PBool True), (''message'', PStr ''Processing started''),
                    (''job_id'', PStr (wh_job_id wh))], v') \<and>
            documents v' = documents v \<and>
            tasks v' = tasks v @ [ProcessDocumentTask (wh_job_id wh) (wh_file_path wh)
               (style_applied d) (language_variant d)
               (case formatting_options d of None \<Rightarrow> [] | Some x \<Rightarrow> x) uid]) \<and>
      (\<exists>v'. main_upload_complete_webhook wh uid v =
              (Inr [(''success'', PBool True),
                    (''message'', PStr ''Upload confirmed. Document processing started. Status: PROCESSING''),
                    (''job_id'', PStr (wh_job_id wh))], v') \<and>
            documents v' = documents v \<and>
            tasks v' = tasks v @ [SimulateProcessing (wh_job_id wh)])) \<and>
   (db_faults x = [Some e1, Some e2, Some e3, Some e4] \<and> st_faults x = [] \<and>
    map_of (bucket x) (relative_path path) = Some content \<and>
    AdvancedFormatter env style
      (if backend_of env = ''gemini'' then GeminiClient else HuggingFaceClient) = Inr fmt \<and>
    fmt content = Inr result \<longrightarrow>
      fst (api_process_document_task env job path style variant options owner x) = Inr () \<and>
      documents (snd (api_process_document_task env job path style variant options owner x)) =
        documents x \<and>
      calls (snd (api_process_document_task env job path style variant options owner x)) =
        calls x @ [call_10 job, call_30 env job, call_90 job, call_100 env job] \<and>
      map_of (bucket (snd (api_process_document_task env job path style variant options owner x)))
        (result_filename job) = Some result)"
proof -
  have a: "\<exists>w'. api_update_document_status j s p l r t w = (Inr (), w') \<and>
         (db_faults w = Some e # fs \<longrightarrow>
            documents w' = documents w \<and>
            error_log w' = error_log w @ [''Error updating document status: '' @ str e])"
  proof (cases "db_faults w = Some e # fs")
    case True
    then show ?thesis by (simp add: api_update_dropped)
  next
    case False
    then show ?thesis using api_update_effect [of j s p l r t w] by auto
  qed
  have m: "\<exists>w'. main_update_document_status j s p l w = (Inr (), w') \<and>
         (db_faults w = Some e # fs \<longrightarrow>
            documents w' = documents w \<and>
            error_log w' = error_log w @ [''Error updating document status: '' @ str e])"
  proof (cases "db_faults w = Some e # fs")
    case True
    then show ?thesis by (simp add: main_update_dropped)
  next
    case False
    then show ?thesis using main_update_effect [of j s p l w] by auto
  qed
  have h: "db_faults v = None # Some e # fs \<and>
    filter (\<lambda>r. doc_id r = wh_job_id wh \<and> user_id r = uid) (documents v) = d # ds \<and>
    wh_success wh \<longrightarrow>
      (\<exists>v'. api_upload_complete_webhook wh uid v =
              (Inr [(''success'', PBool True), (''message'', PStr ''Processing started''),
                    (''job_id'', PStr (wh_job_id wh))], v') \<and>
            documents v' = documents v \<and>
            tasks v' = tasks v @ [ProcessDocumentTask (wh_job_id wh) (wh_file_path wh)
               (style_applied d) (language_variant d)
               (case formatting_options d of None \<Rightarrow> [] | Some x \<Rightarrow> x) uid]) \<and>
      (\<exists>v'. main_upload_complete_webhook wh uid v =
              (Inr [(''success'', PBool True),
                    (''message'', PStr ''Upload confirmed. Document processing started. Status: PROCESSING''),
                    (''job_id'', PStr (wh_job_id wh))], v') \<and>
            documents v' = documents v \<and>
            tasks v' = tasks v @ [SimulateProcessing (wh_job_id wh)])"
    using api_webhook_continues [of v e fs wh uid d ds]
      main_webhook_continues [of v e fs wh uid d ds]
    by blast
  have q: "db_faults x = [Some e1, Some e2, Some e3, Some e4] \<and> st_faults x = [] \<and>
    map_of (bucket x) (relative_path path) = Some content \<and>
    AdvancedFormatter env style
      (if backend_of env = ''gemini'' then GeminiClient else HuggingFaceClient) = Inr fmt \<and>
    fmt content = Inr result \<longrightarrow>
      fst (api_process_document_task env job path style variant options owner x) = Inr () \<and>
      documents (snd (api_process_document_task env job path style variant options owner x)) =
        documents x \<and>
      calls (snd (api_process_document_task env job path style variant options owner x)) =
        calls x @ [call_10 job, call_30 env job, call_90 job, call_100 env job] \<and>
      map_of (bucket (snd (api_process_document_task env job path style variant options owner x)))
        (result_filename job) = Some result"
    using api_run_unrecorded [of x e1 e2 e3 e4 path content env style fmt result job variant options owner]
    by blast
  from a m h q show ?thesis by (intro conjI)
qed

text \<open>
  The same at a concrete input: the store is down (\<open>connection reset\<close>) when the
  pipeline reports progress 10 for \<open>job-1\<close>, and when the completion handler marks it
  \<open>processing\<close>.
\<close>

theorem update_document_status_never_raises_witness:
  "(\<exists>w'. api_update_document_status ''job-1'' ''processing'' (Some 10) None None None
            (world1\<lparr>db_faults := [Some (Exception ''connection reset'')]\<rparr>) = (Inr (), w') \<and>
         documents w' = [job1] \<and>
         error_log w' = [''Error updating document status: connection reset'']) \<and>
   (\<exists>w'. main_update_document_status ''job-1'' ''processing'' (Some 10) None
            (world1\<lparr>db_faults := [Some (Exception ''connection reset'')]\<rparr>) = (Inr (), w') \<and>
         documents w' = [job1] \<and>
         error_log w' = [''Error updating document status: connection reset'']) \<and>
   (\<exists>v'. api_upload_complete_webhook notify1 ''alice''
            (world1\<lparr>db_faults := [None, Some (Exception ''connection reset'')]\<rparr>) =
            (Inr [(''success'', PBool True), (''message'', PStr ''Processing started''),
                  (''job_id'', PStr ''job-1'')], v') \<and>
         documents v' = [job1] \<and>
         tasks v' = [ProcessDocumentTask ''job-1'' ''documents/alice/17_u1.docx'' ''apa'' ''us''
                       [(''trackedChanges'', PBool True)] ''alice'']) \<and>
   (\<exists>v'. main_upload_complete_webhook notify1 ''alice''
            (world1\<lparr>db_faults := [None, Some (Exception ''connection reset'')]\<rparr>) =
            (Inr [(''success'', PBool True),
                  (''message'', PStr ''Upload confirmed. Document processing started. Status: PROCESSING''),
                  (''job_id'', PStr ''job-1'')], v') \<and>
         documents v' = [job1] \<and>
         tasks v' = [SimulateProcessing ''job-1'']) \<and>
   fst (api_process_document_task env_ok ''job-1'' ''documents/alice/17_u1.docx'' ''apa'' ''us'' []
          ''alice''
          (world1\<lparr>db_faults := replicate 4 (Some (Exception ''connection reset''))\<rparr>)) = Inr () \<and>
   documents (snd (api_process_document_task env_ok ''job-1'' ''documents/alice/17_u1.docx'' ''apa''
          ''us'' [] ''alice''
          (world1\<lparr>db_faults := replicate 4 (Some (Exception ''connection reset''))\<rparr>))) = [job1] \<and>
   calls (snd (api_process_document_task env_ok ''job-1'' ''documents/alice/17_u1.docx'' ''apa''
          ''us'' [] ''alice''
          (world1\<lparr>db_faults := replicate 4 (Some (Exception ''connection reset''))\<rparr>))) =
     [call_10 ''job-1'', call_30 env_ok ''job-1'', call_90 ''job-1'', call_100 env_ok ''job-1'']"
proof -
  let ?down = "Exception ''connection reset''"
  let ?w = "world1\<lparr>db_faults := [Some ?down]\<rparr>"
  let ?v = "world1\<lparr>db_faults := [None, Some ?down]\<rparr>"
  let ?x = "world1\<lparr>db_faults := replicate 4 (Some ?down)\<rparr>"
  let ?fmt = "\<lambda>content. Inr (''formatted '' @ content) :: exc + bytes"
  note t = update_document_status_never_raises
    [where j = "''job-1''" and s = "''processing''" and p = "Some 10" and l = None and r = None
       and t = None and w = ?w and e = ?down and fs = "[]" and v = ?v and wh = notify1
       and uid = "''alice''" and d = job1 and ds = "[]" and x = ?x and ?e1.0 = ?down
       and ?e2.0 = ?down and ?e3.0 = ?down and ?e4.0 = ?down
       and path = "''documents/alice/17_u1.docx''" and content = "''raw text''" and env = env_ok
       and style = "''apa''" and fmt = ?fmt and result = "''formatted raw text''"
       and job = "''job-1''" and variant = "''us''" and options = "[]" and owner = "''alice''"]
  have h: "db_faults ?w = Some ?down # []" "db_faults ?v = None # Some ?down # []"
    "filter (\<lambda>r. doc_id r = wh_job_id notify1 \<and> user_id r = ''alice'') (documents ?v) = job1 # []"
    "wh_success notify1"
    "db_faults ?x = [Some ?down, Some ?down, Some ?down, Some ?down]" "st_faults ?x = []"
    "map_of (bucket ?x) (relative_path ''documents/alice/17_u1.docx'') = Some ''raw text''"
    "AdvancedFormatter env_ok ''apa''
       (if backend_of env_ok = ''gemini'' then GeminiClient else HuggingFaceClient) = Inr ?fmt"
    "?fmt ''raw text'' = Inr ''formatted raw text''"
    by (simp_all add: world1_def job1_def notify1_def env_ok_def relative_path_def numeral_eq_Suc)
  have c: "calls ?x = []" "documents ?x = [job1]" "documents ?w = [job1]" "documents ?v = [job1]"
    "error_log ?w = []" "tasks ?v = []" "wh_job_id notify1 = ''job-1''"
    "wh_file_path notify1 = ''documents/alice/17_u1.docx''"
    "style_applied job1 = ''apa''" "language_variant job1 = ''us''"
    "formatting_options job1 = Some [(''trackedChanges'', PBool True)]"
    by (simp_all add: world1_def job1_def notify1_def)
  from t h show ?thesis
    by (simp add: c)
qed

text \<open>
  C1, as stated, fails. The job \<open>job-1\<close> is already \<open>processing\<close> (its first
  completion call was accepted and its task is waiting); a second completion call with
  \<open>success = True\<close> answers \<open>success = True\<close> again and creates a second task for the
  same job.
\<close>

theorem second_completion_call_starts_second_run:
  "map status (documents world_processing) = [''processing''] \<and>
   fst (api_upload_complete_webhook notify1 ''alice'' world_processing) =
     Inr [(''success'', PBool True), (''message'', PStr ''Processing started''),
          (''job_id'', PStr ''job-1'')] \<and>
   tasks (snd (api_upload_complete_webhook notify1 ''alice'' world_processing)) =
     [ProcessDocumentTask ''job-1'' ''documents/alice/17_u1.docx'' ''apa'' ''us''
        [(''trackedChanges'', PBool True)] ''alice'',
      ProcessDocumentTask ''job-1'' ''documents/alice/17_u1.docx'' ''apa'' ''us''
        [(''trackedChanges'', PBool True)] ''alice'']"
  by (simp add: world_processing_eq) (simp add: handler_defs scenario_defs io_defs Let_def)

text \<open>
  C1, amended. The completion handler does not look at the job's status. With the record
  store answering, every completion call with \<open>success = True\<close> for a job the caller
  owns, whatever the job's status (\<open>draft\<close>, \<open>processing\<close>, \<open>formatted\<close>, \<open>failed\<close>),
  is accepted: it answers \<open>success = True\<close>, issues the update to \<open>processing\<close> with
  progress 0 and creates one more processing task; a second call right after the first is
  accepted in the same way, so two calls create two tasks for the job. This holds for the
  handler of \<open>api.py\<close>, of \<open>main.py\<close> and of \<open>upload-complete.py\<close>.
\<close>

theorem completion_call_accepted_in_every_status:
  assumes "db_faults w = []"
    and "filter (\<lambda>r. doc_id r = wh_job_id wh \<and> user_id r = uid) (documents w) = d # ds"
    and "wh_success wh"
  shows
    "(\<exists>w' w''.
        api_upload_complete_webhook wh uid w =
          (Inr [(''success'', PBool True), (''message'', PStr ''Processing started''),
                (''job_id'', PStr (wh_job_id wh))], w') \<and>
        calls w' = calls w @
          [\<lparr> c_job_id = wh_job_id wh, c_status = ''processing'', c_progress = Some 0,
             c_processing_log = None, c_result_url = None, c_formatting_time = None \<rparr>] \<and>
        tasks w' = tasks w @
          [ProcessDocumentTask (wh_job_id wh) (wh_file_path wh) (style_applied d)
             (language_variant d) (case formatting_options d of None \<Rightarrow> [] | Some x \<Rightarrow> x) uid] \<and>
        api_upload_complete_webhook wh uid w' =
          (Inr [(''success'', PBool True), (''message'', PStr ''Processing started''),
                (''job_id'', PStr (wh_job_id wh))], w'') \<and>
        tasks w'' = tasks w @
          [ProcessDocumentTask (wh_job_id wh) (wh_file_path wh) (style_applied d)
             (language_variant d) (case formatting_options d of None \<Rightarrow> [] | Some x \<Rightarrow> x) uid,
           ProcessDocumentTask (wh_job_id wh) (wh_file_path wh) (style_applied d)
             (language_variant d) (case formatting_options d of None \<Rightarrow> [] | Some x \<Rightarrow> x) uid]) \<and>
     (\<exists>w' w''.
        main_upload_complete_webhook wh uid w =
          (Inr [(''success'', PBool True),
                (''message'', PStr ''Upload confirmed. Document processing started. Status: PROCESSING''),
                (''job_id'', PStr (wh_job_id wh))], w') \<and>
        calls w' = calls w @
          [\<lparr> c_job_id = wh_job_id wh, c_status = ''processing'', c_progress = Some 0,
             c_processing_log = None, c_result_url = None, c_formatting_time = None \<rparr>] \<and>
        tasks w' = tasks w @ [SimulateProcessing (wh_job_id wh)] \<and>
        main_upload_complete_webhook wh uid w' =
          (Inr [(''success'', PBool True),
                (''message'', PStr ''Upload confirmed. Document processing started. Status: PROCESSING''),
                (''job_id'', PStr (wh_job_id wh))], w'') \<and>
        tasks w'' = tasks w @ [SimulateProcessing (wh_job_id wh), SimulateProcessing (wh_job_id wh)]) \<and>
     (\<exists>w' w''.
        app_upload_complete_webhook wh uid w =
          (Inr [(''success'', PBool True),
                (''message'', PStr ''Upload confirmed. Document processing started. Status: PROCESSING''),
                (''job_id'', PStr (wh_job_id wh))], w') \<and>
        calls w' = calls w @
          [\<lparr> c_job_id = wh_job_id wh, c_status = ''processing'', c_progress = Some 0,
             c_processing_log = None, c_result_url = None, c_formatting_time = None \<rparr>] \<and>
        tasks w' = tasks w @ [SimulateProcessing (wh_job_id wh)] \<and>
        app_upload_complete_webhook wh uid w' =
          (Inr [(''success'', PBool True),
                (''message'', PStr ''Upload confirmed. Document processing started. Status: PROCESSING''),
                (''job_id'', PStr (wh_job_id wh))], w'') \<and>
        tasks w'' = tasks w @ [SimulateProcessing (wh_job_id wh), SimulateProcessing (wh_job_id wh)])"
proof -
  let ?p = "\<lambda>r. doc_id r = wh_job_id wh \<and> user_id r = uid"
  have api: "\<exists>w' w''.
        api_upload_complete_webhook wh uid w =
          (Inr [(''success'', PBool True), (''message'', PStr ''Processing started''),
                (''job_id'', PStr (wh_job_id wh))], w') \<and>
        calls w' = calls w @
          [\<lparr> c_job_id = wh_job_id wh, c_status = ''processing'', c_progress = Some 0,
             c_processing_log = None, c_result_url = None, c_formatting_time = None \<rparr>] \<and>
        tasks w' = tasks w @
          [ProcessDocumentTask (wh_job_id wh) (wh_file_path wh) (style_applied d)
             (language_variant d) (case formatting_options d of None \<Rightarrow> [] | Some x \<Rightarrow> x) uid] \<and>
        api_upload_complete_webhook wh uid w' =
          (Inr [(''success'', PBool True), (''message'', PStr ''Processing started''),
                (''job_id'', PStr (wh_job_id wh))], w'') \<and>
        tasks w'' = tasks w @
          [ProcessDocumentTask (wh_job_id wh) (wh_file_path wh) (style_applied d)
             (language_variant d) (case formatting_options d of None \<Rightarrow> [] | Some x \<Rightarrow> x) uid,
           ProcessDocumentTask (wh_job_id wh) (wh_file_path wh) (style_applied d)
             (language_variant d) (case formatting_options d of None \<Rightarrow> [] | Some x \<Rightarrow> x) uid]"
  proof -
    let ?u = "api_update_data (clock w) ''processing'' (Some 0) None None None"
    let ?w' = "snd (api_upload_complete_webhook wh uid w)"
    note one = api_notify_once [OF assms]
    have f: "filter ?p (documents ?w') = apply_update ?u d # map (apply_update ?u) ds"
      by (simp add: one filter_after_update assms)
    have k: "db_faults ?w' = []" by (simp add: one assms)
    have s: "style_applied (apply_update ?u d) = style_applied d"
      "language_variant (apply_update ?u d) = language_variant d"
      "formatting_options (apply_update ?u d) = formatting_options d"
      by (simp_all add: apply_update_def)
    note two = api_notify_once [OF k f assms(3)]
    show ?thesis
      apply (rule exI [of _ ?w'])
      apply (rule exI [of _ "snd (api_upload_complete_webhook wh uid ?w')"])
      apply (simp add: two s)
      apply (simp add: one)
      done
  qed
  have main: "\<exists>w' w''.
        main_upload_complete_webhook wh uid w =
          (Inr [(''success'', PBool True),
                (''message'', PStr ''Upload confirmed. Document processing started. Status: PROCESSING''),
                (''job_id'', PStr (wh_job_id wh))], w') \<and>
        calls w' = calls w @
          [\<lparr> c_job_id = wh_job_id wh, c_status = ''processing'', c_progress = Some 0,
             c_processing_log = None, c_result_url = None, c_formatting_time = None \<rparr>] \<and>
        tasks w' = tasks w @ [SimulateProcessing (wh_job_id wh)] \<and>
        main_upload_complete_webhook wh uid w' =
          (Inr [(''success'', PBool True),
                (''message'', PStr ''Upload confirmed. Document processing started. Status: PROCESSING''),
                (''job_id'', PStr (wh_job_id wh))], w'') \<and>
        tasks w'' = tasks w @ [SimulateProcessing (wh_job_id wh), SimulateProcessing (wh_job_id wh)]"
  proof -
    let ?u = "main_update_data (clock w) ''processing'' (Some 0) None"
    let ?w' = "snd (main_upload_complete_webhook wh uid w)"
    note one = main_notify_once [OF assms]
    have f: "filter ?p (documents ?w') = apply_update ?u d # map (apply_update ?u) ds"
      by (simp add: one filter_after_update assms)
    have k: "db_faults ?w' = []" by (simp add: one assms)
    note two = main_notify_once [OF k f assms(3)]
    show ?thesis
      apply (rule exI [of _ ?w'])
      apply (rule exI [of _ "snd (main_upload_complete_webhook wh uid ?w')"])
      apply (simp add: two)
      apply (simp add: one)
      done
  qed
  have app: "\<exists>w' w''.
        app_upload_complete_webhook wh uid w =
          (Inr [(''success'', PBool True),
                (''message'', PStr ''Upload confirmed. Document processing started. Status: PROCESSING''),
                (''job_id'', PStr (wh_job_id wh))], w') \<and>
        calls w' = calls w @
          [\<lparr> c_job_id = wh_job_id wh, c_status = ''processing'', c_progress = Some 0,
             c_processing_log = None, c_result_url = None, c_formatting_time = None \<rparr>] \<and>
        tasks w' = tasks w @ [SimulateProcessing (wh_job_id wh)] \<and>
        app_upload_complete_webhook wh uid w' =
          (Inr [(''success'', PBool True),
                (''message'', PStr ''Upload confirmed. Document processing started. Status: PROCESSING''),
                (''job_id'', PStr (wh_job_id wh))], w'') \<and>
        tasks w'' = tasks w @ [SimulateProcessing (wh_job_id wh), SimulateProcessing (wh_job_id wh)]"
  proof -
    let ?u = "main_update_data (clock w) ''processing'' (Some 0) None"
    let ?w' = "snd (app_upload_complete_webhook wh uid w)"
    note one = app_notify_once [OF assms]
    have f: "filter ?p (documents ?w') = apply_update ?u d # map (apply_update ?u) ds"
      by (simp add: one filter_after_update assms)
    have k: "db_faults ?w' = []" by (simp add: one assms)
    note two = app_notify_once [OF k f assms(3)]
    show ?thesis
      apply (rule exI [of _ ?w'])
      apply (rule exI [of _ "snd (app_upload_complete_webhook wh uid ?w')"])
      apply (simp add: two)
      apply (simp add: one)
      done
  qed
  from api main app show ?thesis by blast
qed

text \<open>
  The amended claim at \<open>job-1\<close> while it is \<open>processing\<close> with one task waiting: the
  call is accepted, and after a further call three tasks for the job are waiting.
\<close>

theorem completion_call_accepted_in_every_status_witness:
  "db_faults world_processing = [] \<and>
   filter (\<lambda>r. doc_id r = ''job-1'' \<and> user_id r = ''alice'') (documents world_processing) =
     [job1\<lparr>status := ''processing'', processing_log := Some [(''progress'', PInt 0)]\<rparr>] \<and>
   wh_success notify1 \<and>
   (\<exists>w' w''.
      api_upload_complete_webhook notify1 ''alice'' world_processing =
        (Inr [(''success'', PBool True), (''message'', PStr ''Processing started''),
              (''job_id'', PStr ''job-1'')], w') \<and>
      length (tasks w') = 2 \<and>
      api_upload_complete_webhook notify1 ''alice'' w' =
        (Inr [(''success'', PBool True), (''message'', PStr ''Processing started''),
              (''job_id'', PStr ''job-1'')], w'') \<and>
      length (tasks w'') = 3)"
proof -
  have h1: "db_faults world_processing = []"
    by (simp add: world_processing_eq world1_def)
  have h2: "filter (\<lambda>r. doc_id r = wh_job_id notify1 \<and> user_id r = ''alice'') (documents world_processing) =
     [job1\<lparr>status := ''processing'', processing_log := Some [(''progress'', PInt 0)]\<rparr>]"
    by (simp add: world_processing_eq world1_def job1_def notify1_def)
  have h3: "wh_success notify1" by (simp add: notify1_def)
  have t: "length (tasks world_processing) = 1"
    by (simp add: world_processing_eq)
  from completion_call_accepted_in_every_status [OF h1 h2 h3]
  obtain w' w'' where
    "api_upload_complete_webhook notify1 ''alice'' world_processing =
        (Inr [(''success'', PBool True), (''message'', PStr ''Processing started''),
              (''job_id'', PStr (wh_job_id notify1))], w')"
    "length (tasks w') = 2"
    "api_upload_complete_webhook notify1 ''alice'' w' =
        (Inr [(''success'', PBool True), (''message'', PStr ''Processing started''),
              (''job_id'', PStr (wh_job_id notify1))], w'')"
    "length (tasks w'') = 3"
    using t by fastforce
  then show ?thesis
    using h1 h2 h3 by (auto simp add: notify1_def)
qed

text \<open>
  C2, as stated, fails. While \<open>job-1\<close> is \<open>processing\<close> and its task is still waiting
  to read the input, the owner's delete call on \<open>api.py\<close> succeeds: the input object
  is removed from the bucket and the record is deleted. The run then finds no object to
  fetch and fails.
\<close>

theorem delete_while_processing_removes_objects:
  "map status (documents world_processing) = [''processing''] \<and>
   tasks world_processing =
     [ProcessDocumentTask ''job-1'' ''documents/alice/17_u1.docx'' ''apa'' ''us''
        [(''trackedChanges'', PBool True)] ''alice''] \<and>
   bucket world_processing = [(''documents/alice/17_u1.docx'', ''raw text'')] \<and>
   fst (api_delete_job ''job-1'' ''alice'' world_processing) =
     Inr [(''success'', PBool True), (''message'', PStr ''Job deleted'')] \<and>
   bucket (snd (api_delete_job ''job-1'' ''alice'' world_processing)) = [] \<and>
   documents (snd (api_delete_job ''job-1'' ''alice'' world_processing)) = [] \<and>
   map c_status
     (calls (run_next_task env_ok (snd (api_delete_job ''job-1'' ''alice'' world_processing)))) =
     [''processing'', ''failed''] \<and>
   map c_processing_log
     (calls (run_next_task env_ok (snd (api_delete_job ''job-1'' ''alice'' world_processing)))) =
     [None, Some [(''error'', PStr ''Object not found'')]]"
  by (simp add: world_processing_eq)
     (simp add: handler_defs scenario_defs io_defs Let_def relative_path_def classify_def)

text \<open>
  C2, amended. \<open>delete_job\<close> of \<open>api.py\<close> does not look at the job's status and knows
  nothing of running tasks. With the record store and the storage service answering, a
  delete call for a job the caller owns, whatever the job's status (\<open>processing\<close>
  included), removes the job's storage objects (the input and, if \<open>result_url\<close> is set,
  the output), deletes the record and answers \<open>success = True\<close>; the tasks on the event
  loop are left as they are.
\<close>

theorem delete_job_in_every_status:
  assumes "db_faults w = []" and "st_faults w = []"
    and "filter (\<lambda>r. doc_id r = job_id \<and> user_id r = uid) (documents w) = d # ds"
  shows "\<exists>w'. api_delete_job job_id uid w =
           (Inr [(''success'', PBool True), (''message'', PStr ''Job deleted'')], w') \<and>
         documents w' = filter (\<lambda>r. doc_id r \<noteq> job_id) (documents w) \<and>
         bucket w' = filter (\<lambda>(p, _). p \<notin> set (stored_objects d)) (bucket w) \<and>
         tasks w' = tasks w"
  using assms
  by (auto simp add: api_delete_job_def io_defs Let_def stored_objects_def
      split: option.split list.split intro!: filter_cong)

text \<open>The amended claim at \<open>job-1\<close> after its run has ended: input and output are removed.\<close>

theorem delete_job_in_every_status_witness:
  "db_faults world_formatted = [] \<and> st_faults world_formatted = [] \<and>
   map status (filter (\<lambda>r. doc_id r = ''job-1'' \<and> user_id r = ''alice'') (documents world_formatted)) =
     [''formatted''] \<and>
   map fst (bucket world_formatted) = [''documents/alice/17_u1.docx'', ''formatted/job-1.docx''] \<and>
   (\<exists>w'. api_delete_job ''job-1'' ''alice'' world_formatted =
           (Inr [(''success'', PBool True), (''message'', PStr ''Job deleted'')], w') \<and>
         documents w' = [] \<and> bucket w' = [] \<and> tasks w' = [])"
proof -
  have e: "documents world_formatted =
             [job1\<lparr> status := ''formatted'',
                    processing_log := Some [(''progress'', PInt 100), (''processing_time'', PFloat 2),
                       (''backend'', PStr ''huggingface''), (''message'', PStr ''Formatting successful'')],
                    result_url := Some ''formatted/job-1.docx'', formatting_time := Some 2,
                    processed_at := Some 0 \<rparr>]"
    "bucket world_formatted =
       [(''documents/alice/17_u1.docx'', ''raw text''), (''formatted/job-1.docx'', ''formatted raw text'')]"
    "db_faults world_formatted = []" "st_faults world_formatted = []" "tasks world_formatted = []"
    by (simp_all add: world_formatted_eq world1_def job1_def)
  have h3: "filter (\<lambda>r. doc_id r = ''job-1'' \<and> user_id r = ''alice'') (documents world_formatted) =
      [job1\<lparr> status := ''formatted'',
                    processing_log := Some [(''progress'', PInt 100), (''processing_time'', PFloat 2),
                       (''backend'', PStr ''huggingface''), (''message'', PStr ''Formatting successful'')],
                    result_url := Some ''formatted/job-1.docx'', formatting_time := Some 2,
                    processed_at := Some 0 \<rparr>]"
    by (simp add: e job1_def)
  from delete_job_in_every_status [OF e(3) e(4) h3]
  show ?thesis
    by (simp add: e stored_objects_def job1_def)
qed

text \<open>
  C3 on the code. \<open>bob\<close> asks for the status, the artifact and the deletion of \<open>job-1\<close>,
  which \<open>alice\<close> owns, and for the status of a job that does not exist. In \<open>api.py\<close>
  each handler raises the 404 inside its own \<open>try\<close>, whose \<open>except Exception\<close> turns
  it into status 500; in \<open>main.py\<close>, where \<open>except HTTPException: raise\<close> comes first,
  the 404 reaches the caller.
\<close>

theorem api_not_found_becomes_500:
  "fst (api_get_document_status ''job-1'' ''bob'' world1) = Inl (HTTPException 500 ''404: Job not found'') \<and>
   fst (api_download_document ''job-1'' ''bob'' world1) = Inl (HTTPException 500 ''404: Job not found'') \<and>
   fst (api_delete_job ''job-1'' ''bob'' world1) = Inl (HTTPException 500 ''404: Job not found'') \<and>
   fst (api_get_document_status ''job-2'' ''bob'' world1) = Inl (HTTPException 500 ''404: Job not found'') \<and>
   fst (main_get_document_status ''job-1'' ''bob'' world1) = Inl (HTTPException 404 ''Job not found'') \<and>
   fst (main_download_document ''job-1'' ''bob'' world1) = Inl (HTTPException 404 ''Job not found'') \<and>
   fst (main_delete_job ''job-1'' world1) = Inl (HTTPException 404 ''Job not found'')"
  by (simp add: handler_defs scenario_defs io_defs str_nat.simps Let_def)

text \<open>
  C8 on the code. A create-upload request declaring 200 MB, and one declaring a negative
  size: \<open>api.py\<close> has no size check, accepts both and stores the declared size on a
  new record; \<open>main.py\<close> rejects both with status 400 before anything is created.
\<close>

theorem api_create_upload_has_no_size_check:
  "(\<exists>resp. fst (api_create_upload_url env_ok ''big.docx'' ''apa'' ''us'' False
                  (Some (200 * 1024 * 1024)) ''alice'' world1) = Inr resp \<and> cu_success resp) \<and>
   map file_size (documents (snd (api_create_upload_url env_ok ''big.docx'' ''apa'' ''us'' False
                  (Some (200 * 1024 * 1024)) ''alice'' world1))) = [Some 500000, Some 209715200] \<and>
   (\<exists>resp. fst (api_create_upload_url env_ok ''big.docx'' ''apa'' ''us'' False
                  (Some (- 1)) ''alice'' world1) = Inr resp \<and> cu_success resp) \<and>
   map file_size (documents (snd (api_create_upload_url env_ok ''big.docx'' ''apa'' ''us'' False
                  (Some (- 1)) ''alice'' world1))) = [Some 500000, Some (- 1)] \<and>
   fst (main_create_upload_url env_ok ''big.docx'' ''apa'' ''us'' False
          (Some (200 * 1024 * 1024)) ''alice'' world1) =
     Inl (HTTPException 400 ''File size exceeds maximum limit of 100MB'') \<and>
   documents (snd (main_create_upload_url env_ok ''big.docx'' ''apa'' ''us'' False
          (Some (200 * 1024 * 1024)) ''alice'' world1)) = documents world1 \<and>
   fst (main_create_upload_url env_ok ''big.docx'' ''apa'' ''us'' False
          (Some (- 1)) ''alice'' world1) =
     Inl (HTTPException 400 ''File size must be non-negative'') \<and>
   documents (snd (main_create_upload_url env_ok ''big.docx'' ''apa'' ''us'' False
          (Some (- 1)) ''alice'' world1)) = documents world1"
  by (simp add: handler_defs scenario_defs io_defs Let_def signed_url_of_def py_or_def
      unique_filename_def file_extension_def)

text \<open>
  C9 on the code. \<open>job-1\<close> asked for tracked changes. Once it is \<open>formatted\<close>, the
  download of \<open>api.py\<close> returns the primary content and no tracked-changes payload,
  where that of \<open>main.py\<close> returns one; while the job is \<open>processing\<close>, the download
  of \<open>api.py\<close> fails with status 500 (its own 400 \<open>Document not ready\<close>, caught by
  its \<open>except Exception\<close>), where that of \<open>main.py\<close> fails with 400.
\<close>

theorem api_download_lacks_tracked_changes:
  "map status (documents world_formatted) = [''formatted''] \<and>
   map tracked_changes (documents world_formatted) = [Some (PBool True)] \<and>
   fst (api_download_document ''job-1'' ''alice'' world_formatted) =
     Inr \<lparr> fd_success = True, fd_filename = ''formatted_thesis.docx'',
           fd_content = B64 ''formatted raw text'', fd_tracked_changes_content = None,
           fd_metadata = [(''style'', PStr ''apa'')] \<rparr> \<and>
   (\<exists>resp payload. fst (main_download_document ''job-1'' ''alice'' world_formatted) = Inr resp \<and>
      fd_tracked_changes_content resp = Some payload) \<and>
   map status (documents world_processing) = [''processing''] \<and>
   fst (api_download_document ''job-1'' ''alice'' world_processing) =
     Inl (HTTPException 500 ''400: Document not ready'') \<and>
   fst (main_download_document ''job-1'' ''alice'' world_processing) =
     Inl (HTTPException 400 ''Document not ready for download'')"
  by (simp add: world_formatted_eq world_processing_eq)
     (simp add: handler_defs scenario_defs io_defs Let_def str_nat.simps tracked_changes_enabled_def)





text \<open>
  C4, as stated, fails. The engine's response for \<open>job-1\<close> cannot be parsed
  (\<open>JSON Parsing Error\<close>). The last progress reported before the failure is 30; after the
  run the status reporter answers \<open>failed\<close> with the malformed-response message and
  progress 0, not 30.
\<close>

theorem malformed_response_resets_progress:
  "map c_progress (calls world_failed) = [Some 0, Some 10, Some 30, Some 0] \<and>
   map c_status (calls world_failed) = [''processing'', ''processing'', ''processing'', ''failed''] \<and>
   fst (api_get_document_status ''job-1'' ''alice'' world_failed) =
     Inr \<lparr> ds_success = True, ds_job_id = ''job-1'', ds_status = ''failed'', ds_progress = PInt 0,
           ds_result_url = None,
           ds_error = Some (PStr ''Formatting failed: AI response was malformed. Please try again.'') \<rparr>"
  by (simp add: world_failed_eq) (simp add: api_get_document_status_def scenario_defs io_defs)

text \<open>
  C4, amended. A real pipeline run, whatever the record store does. For every exception
  \<open>e\<close> raised at the fetch (the storage service raises, or the object is missing), at the
  engine's construction, in the transformation or at the store, the run makes exactly one
  call with status \<open>failed\<close>, its last one, and that call passes progress 0 together with
  the message \<open>classify (str e)\<close>. When the record store answers that call, every record
  of the job afterwards has status \<open>failed\<close>, that message as its error and progress 0,
  whatever progress was reported before. When the record store raises at that call, the
  write is dropped: the table is what the calls before the failure left, so the record
  keeps the status and the progress it had. The message is the malformed-response text
  whenever the exception's text contains \<open>JSON Parsing Error\<close> or
  \<open>Unexpected end of input\<close>, the connection-lost text for the two connection patterns,
  and the exception's own text otherwise.
\<close>

theorem failed_run_records_classified_error_and_progress_0:
  "(st_faults w = Some e # fs \<longrightarrow>
        run_failed_with job [] (str e) w
          (snd (api_process_document_task env job path style variant options uid w))) \<and>
     (st_faults w = [] \<and> map_of (bucket w) (relative_path path) = None \<longrightarrow>
        run_failed_with job [] ''Object not found'' w
          (snd (api_process_document_task env job path style variant options uid w))) \<and>
     (st_faults w = [] \<and> map_of (bucket w) (relative_path path) = Some content \<and>
      AdvancedFormatter env style
        (if backend_of env = ''gemini'' then GeminiClient else HuggingFaceClient) = Inl e \<longrightarrow>
        run_failed_with job [call_10 job] (str e) w
          (snd (api_process_document_task env job path style variant options uid w))) \<and>
     (st_faults w = [] \<and> map_of (bucket w) (relative_path path) = Some content \<and>
      AdvancedFormatter env style
        (if backend_of env = ''gemini'' then GeminiClient else HuggingFaceClient) = Inr fmt \<and>
      fmt content = Inl e \<longrightarrow>
        run_failed_with job [call_10 job, call_30 env job] (str e) w
          (snd (api_process_document_task env job path style variant options uid w))) \<and>
     (st_faults w = None # Some e # fs \<and> map_of (bucket w) (relative_path path) = Some content \<and>
      AdvancedFormatter env style
        (if backend_of env = ''gemini'' then GeminiClient else HuggingFaceClient) = Inr fmt \<and>
      fmt content = Inr result \<longrightarrow>
        run_failed_with job [call_10 job, call_30 env job, call_90 job] (str e) w
          (snd (api_process_document_task env job path style variant options uid w))) \<and>
     (contains msg ''JSON Parsing Error'' \<or> contains msg ''Unexpected end of input'' \<longrightarrow>
        classify msg = ''Formatting failed: AI response was malformed. Please try again.'') \<and>
     (\<not> contains msg ''JSON Parsing Error'' \<and> \<not> contains msg ''Unexpected end of input'' \<and>
      (contains msg ''peer closed connection'' \<or> contains msg ''incomplete chunked read'') \<longrightarrow>
        classify msg = ''Formatting failed: Connection to AI server lost. Please try again.'') \<and>
     (\<not> contains msg ''JSON Parsing Error'' \<and> \<not> contains msg ''Unexpected end of input'' \<and>
      \<not> contains msg ''peer closed connection'' \<and> \<not> contains msg ''incomplete chunked read'' \<longrightarrow>
        classify msg = msg)"
proof -
  let ?end = "snd (api_process_document_task env job path style variant options uid w)"
  have fetch: "run_failed_with job [] (str e) w ?end" if h: "st_faults w = Some e # fs"
    by (rule run_failed_withI)
       (simp_all add: api_run_fetch_fault_calls [OF h] api_run_fetch_fault_steps [OF h] call_defs)
  have missing: "run_failed_with job [] ''Object not found'' w ?end"
    if h: "st_faults w = []" "map_of (bucket w) (relative_path path) = None"
    by (rule run_failed_withI)
       (simp_all add: api_run_fetch_missing_calls [OF h] api_run_fetch_missing_steps [OF h] call_defs)
  have engine: "run_failed_with job [call_10 job] (str e) w ?end"
    if h: "st_faults w = []" "map_of (bucket w) (relative_path path) = Some content"
      "AdvancedFormatter env style
        (if backend_of env = ''gemini'' then GeminiClient else HuggingFaceClient) = Inl e"
    by (rule run_failed_withI)
       (simp_all add: api_run_engine_fault_calls [OF h] api_run_engine_fault_steps [OF h] call_defs)
  have transform: "run_failed_with job [call_10 job, call_30 env job] (str e) w ?end"
    if h: "st_faults w = []" "map_of (bucket w) (relative_path path) = Some content"
      "AdvancedFormatter env style
        (if backend_of env = ''gemini'' then GeminiClient else HuggingFaceClient) = Inr fmt"
      "fmt content = Inl e"
    by (rule run_failed_withI)
       (simp_all add: api_run_transform_fault_calls [OF h] api_run_transform_fault_steps [OF h]
          call_defs)
  have store: "run_failed_with job [call_10 job, call_30 env job, call_90 job] (str e) w ?end"
    if h: "st_faults w = None # Some e # fs" "map_of (bucket w) (relative_path path) = Some content"
      "AdvancedFormatter env style
        (if backend_of env = ''gemini'' then GeminiClient else HuggingFaceClient) = Inr fmt"
      "fmt content = Inr result"
    by (rule run_failed_withI)
       (simp_all add: api_run_store_fault_calls [OF h] api_run_store_fault_steps [OF h] call_defs)
  have c1: "classify msg = ''Formatting failed: AI response was malformed. Please try again.''"
    if "contains msg ''JSON Parsing Error'' \<or> contains msg ''Unexpected end of input''"
    using that unfolding classify_def by (simp only: if_True)
  have c2: "classify msg = ''Formatting failed: Connection to AI server lost. Please try again.''"
    if "\<not> contains msg ''JSON Parsing Error'' \<and> \<not> contains msg ''Unexpected end of input'' \<and>
      (contains msg ''peer closed connection'' \<or> contains msg ''incomplete chunked read'')"
    using that unfolding classify_def by simp
  have c3: "classify msg = msg"
    if "\<not> contains msg ''JSON Parsing Error'' \<and> \<not> contains msg ''Unexpected end of input'' \<and>
      \<not> contains msg ''peer closed connection'' \<and> \<not> contains msg ''incomplete chunked read''"
    using that unfolding classify_def by simp
  from fetch missing engine transform store c1 c2 c3 show ?thesis by blast
qed


text \<open>
  The amended claim at \<open>job-1\<close>. The engine's response is malformed after progress 30:
  with the record store answering the record ends \<open>failed\<close> at progress 0 with the
  malformed-response message; with the record store down at the failed write it stays
  \<open>processing\<close> at progress 30 with no error. The storage service is down at the fetch; it
  is down at the upload of the result after progress 90.
\<close>

theorem failed_run_records_classified_error_and_progress_0_witness:
  "answers_at 2 world1 \<and>
   \<not> answers_at 2 (world1\<lparr>db_faults := [None, None, Some (Exception ''connection reset'')]\<rparr>) \<and>
   contains ''JSON Parsing Error: Unexpected end of input'' ''JSON Parsing Error'' \<and>
   run_failed_with ''job-1'' [call_10 ''job-1'', call_30 env_malformed ''job-1'']
     ''JSON Parsing Error: Unexpected end of input'' world1
     (snd (api_process_document_task env_malformed ''job-1'' ''documents/alice/17_u1.docx''
             ''apa'' ''us'' [] ''alice'' world1)) \<and>
   map (\<lambda>r. (status r, progress_of r, error_of r))
     (documents (snd (api_process_document_task env_malformed ''job-1'' ''documents/alice/17_u1.docx''
                        ''apa'' ''us'' [] ''alice'' world1))) =
     [(''failed'', PInt 0,
       Some (PStr ''Formatting failed: AI response was malformed. Please try again.''))] \<and>
   run_failed_with ''job-1'' [call_10 ''job-1'', call_30 env_malformed ''job-1'']
     ''JSON Parsing Error: Unexpected end of input''
     (world1\<lparr>db_faults := [None, None, Some (Exception ''connection reset'')]\<rparr>)
     (snd (api_process_document_task env_malformed ''job-1'' ''documents/alice/17_u1.docx''
             ''apa'' ''us'' [] ''alice''
             (world1\<lparr>db_faults := [None, None, Some (Exception ''connection reset'')]\<rparr>))) \<and>
   map (\<lambda>r. (status r, progress_of r, error_of r))
     (documents (snd (api_process_document_task env_malformed ''job-1'' ''documents/alice/17_u1.docx''
                        ''apa'' ''us'' [] ''alice''
                        (world1\<lparr>db_faults := [None, None, Some (Exception ''connection reset'')]\<rparr>)))) =
     [(''processing'', PInt 30, None)] \<and>
   classify ''JSON Parsing Error: Unexpected end of input'' =
     ''Formatting failed: AI response was malformed. Please try again.'' \<and>
   run_failed_with ''job-1'' [] ''timeout'' (world1\<lparr>st_faults := [Some (Exception ''timeout'')]\<rparr>)
     (snd (api_process_document_task env_ok ''job-1'' ''documents/alice/17_u1.docx''
             ''apa'' ''us'' [] ''alice'' (world1\<lparr>st_faults := [Some (Exception ''timeout'')]\<rparr>))) \<and>
   run_failed_with ''job-1'' [call_10 ''job-1'', call_30 env_ok ''job-1'', call_90 ''job-1''] ''timeout''
     (world1\<lparr>st_faults := [None, Some (Exception ''timeout'')]\<rparr>)
     (snd (api_process_document_task env_ok ''job-1'' ''documents/alice/17_u1.docx''
             ''apa'' ''us'' [] ''alice'' (world1\<lparr>st_faults := [None, Some (Exception ''timeout'')]\<rparr>)))"
proof -
  let ?path = "''documents/alice/17_u1.docx''"
  let ?fmt = "\<lambda>content. Inr (''formatted '' @ content) :: exc + bytes"
  let ?bad = "\<lambda>content :: bytes. Inl (Exception ''JSON Parsing Error: Unexpected end of input'') :: exc + bytes"
  let ?w2 = "world1\<lparr>st_faults := [Some (Exception ''timeout'')]\<rparr>"
  let ?w3 = "world1\<lparr>st_faults := [None, Some (Exception ''timeout'')]\<rparr>"
  let ?w4 = "world1\<lparr>db_faults := [None, None, Some (Exception ''connection reset'')]\<rparr>"
  have base: "st_faults world1 = []"
    "map_of (bucket world1) (relative_path ?path) = Some ''raw text''"
    by (simp_all add: world1_def relative_path_def)
  have b2: "st_faults ?w2 = [Some (Exception ''timeout'')]"
    by simp
  have b3: "st_faults ?w3 = [None, Some (Exception ''timeout'')]"
    "map_of (bucket ?w3) (relative_path ?path) = Some ''raw text''"
    using base by simp_all
  have b4: "st_faults ?w4 = []" "map_of (bucket ?w4) (relative_path ?path) = Some ''raw text''"
    using base by simp_all
  have a: "answers_at 2 world1" "\<not> answers_at 2 ?w4"
    by (simp_all add: answers_at_def world1_def)
  have e1: "AdvancedFormatter env_ok ''apa''
              (if backend_of env_ok = ''gemini'' then GeminiClient else HuggingFaceClient) = Inr ?fmt"
    by (simp add: env_ok_def)
  have e2: "AdvancedFormatter env_malformed ''apa''
              (if backend_of env_malformed = ''gemini'' then GeminiClient else HuggingFaceClient) = Inr ?bad"
    by (simp add: env_malformed_def env_ok_def)
  have m: "contains ''JSON Parsing Error: Unexpected end of input'' ''JSON Parsing Error''"
    by simp
  note t1 = failed_run_records_classified_error_and_progress_0
      [where w = world1 and env = env_malformed and job = "''job-1''" and path = ?path
        and style = "''apa''" and variant = "''us''" and options = "[]" and uid = "''alice''"
        and content = "''raw text''" and fmt = ?bad
        and e = "Exception ''JSON Parsing Error: Unexpected end of input''"
        and msg = "''JSON Parsing Error: Unexpected end of input''"]
  note t2 = failed_run_records_classified_error_and_progress_0
      [where w = ?w2 and env = env_ok and job = "''job-1''" and path = ?path and style = "''apa''"
        and variant = "''us''" and options = "[]" and uid = "''alice''"
        and e = "Exception ''timeout''" and fs = "[]"]
  note t3 = failed_run_records_classified_error_and_progress_0
      [where w = ?w3 and env = env_ok and job = "''job-1''" and path = ?path and style = "''apa''"
        and variant = "''us''" and options = "[]" and uid = "''alice''"
        and content = "''raw text''" and fmt = ?fmt and result = "''formatted raw text''"
        and e = "Exception ''timeout''" and fs = "[]"]
  note t4 = failed_run_records_classified_error_and_progress_0
      [where w = ?w4 and env = env_malformed and job = "''job-1''" and path = ?path
        and style = "''apa''" and variant = "''us''" and options = "[]" and uid = "''alice''"
        and content = "''raw text''" and fmt = ?bad
        and e = "Exception ''JSON Parsing Error: Unexpected end of input''"]
  from t1 base e2 have 1:
    "run_failed_with ''job-1'' [call_10 ''job-1'', call_30 env_malformed ''job-1'']
       ''JSON Parsing Error: Unexpected end of input'' world1
       (snd (api_process_document_task env_malformed ''job-1'' ?path ''apa'' ''us'' [] ''alice'' world1))"
    by simp
  from t1 m have 2:
    "classify ''JSON Parsing Error: Unexpected end of input'' =
       ''Formatting failed: AI response was malformed. Please try again.''"
    by blast
  from t2 b2 have 3:
    "run_failed_with ''job-1'' [] ''timeout'' ?w2
       (snd (api_process_document_task env_ok ''job-1'' ?path ''apa'' ''us'' [] ''alice'' ?w2))"
    by simp
  from t3 b3 e1 have 4:
    "run_failed_with ''job-1'' [call_10 ''job-1'', call_30 env_ok ''job-1'', call_90 ''job-1''] ''timeout'' ?w3
       (snd (api_process_document_task env_ok ''job-1'' ?path ''apa'' ''us'' [] ''alice'' ?w3))"
    by simp
  from t4 b4 e2 have 5:
    "run_failed_with ''job-1'' [call_10 ''job-1'', call_30 env_malformed ''job-1'']
       ''JSON Parsing Error: Unexpected end of input'' ?w4
       (snd (api_process_document_task env_malformed ''job-1'' ?path ''apa'' ''us'' [] ''alice'' ?w4))"
    by simp
  have 6: "map (\<lambda>r. (status r, progress_of r, error_of r))
     (documents (snd (api_process_document_task env_malformed ''job-1'' ?path ''apa'' ''us'' [] ''alice'' world1))) =
     [(''failed'', PInt 0,
       Some (PStr ''Formatting failed: AI response was malformed. Please try again.''))]"
    by (simp add: api_process_document_task_def api_update_closed pipe_defs scenario_defs
        relative_path_def classify_def api_update_data_def apply_update_def progress_of_def
        error_of_def backend_of_def)
  have 7: "map (\<lambda>r. (status r, progress_of r, error_of r))
     (documents (snd (api_process_document_task env_malformed ''job-1'' ?path ''apa'' ''us'' [] ''alice'' ?w4))) =
     [(''processing'', PInt 30, None)]"
    by (simp add: api_process_document_task_def api_update_closed pipe_defs scenario_defs
        relative_path_def classify_def api_update_data_def apply_update_def progress_of_def
        error_of_def backend_of_def)
  from a m 1 2 3 4 5 6 7 show ?thesis by blast
qed

text \<open>
  C7, as stated, fails. The same job, accepted and run to the end once by the real
  strategy and once by the simulated one: the progress milestones reported are
  0, 10, 30, 90, 100 against 0, 25, 75, 100; the real run stores a result location on the
  record and the simulated run stores none, so that the artifact retriever of \<open>api.py\<close>
  returns the stored content for the first and fails for the second.
\<close>

theorem strategies_report_different_milestones:
  "map c_progress (calls world_formatted) = [Some 0, Some 10, Some 30, Some 90, Some 100] \<and>
   map c_progress (calls world_simulated) = [Some 0, Some 25, Some 75, Some 100] \<and>
   map status (documents world_formatted) = [''formatted''] \<and>
   map status (documents world_simulated) = [''formatted''] \<and>
   map result_url (documents world_formatted) = [Some ''formatted/job-1.docx''] \<and>
   map result_url (documents world_simulated) = [None] \<and>
   (\<exists>resp. fst (api_download_document ''job-1'' ''alice'' world_formatted) = Inr resp \<and>
      fd_content resp = B64 ''formatted raw text'') \<and>
   fst (api_download_document ''job-1'' ''alice'' world_simulated) =
     Inl (HTTPException 500 ''404: Result file not found'')"
  by (simp add: world_formatted_eq world_simulated_eq)
     (simp add: api_download_document_def scenario_defs io_defs str_nat.simps)

text \<open>
  C7, amended. For a job accepted on an idle event loop and run to the end, with the
  record store answering (and, for the real strategy, the input in the bucket, the storage
  service answering and the engine returning), both strategies drive the same status
  transitions: the completion handler puts the job to \<open>processing\<close> with progress 0, the
  run keeps it \<open>processing\<close> and ends it \<open>formatted\<close> with progress 100, which is what
  the record then holds. The milestones in between differ: 10, 30, 90 in the real
  strategy, 25, 75 in the simulated one.
\<close>

theorem strategies_same_transitions_other_milestones:
  assumes "db_faults w = []" and "tasks w = []"
    and "filter (\<lambda>r. doc_id r = wh_job_id wh \<and> user_id r = uid) (documents w) = d # ds"
    and "wh_success wh"
    and "st_faults w = []"
    and "map_of (bucket w) (relative_path (wh_file_path wh)) = Some content"
    and "AdvancedFormatter env (style_applied d)
           (if backend_of env = ''gemini'' then GeminiClient else HuggingFaceClient) = Inr fmt"
    and "fmt content = Inr result"
  shows
    "map (\<lambda>c. (c_status c, c_progress c))
       (drop (length (calls w)) (calls (run_next_task env (snd (api_upload_complete_webhook wh uid w))))) =
       [(''processing'', Some 0), (''processing'', Some 10), (''processing'', Some 30),
        (''processing'', Some 90), (''formatted'', Some 100)] \<and>
     map (\<lambda>c. (c_status c, c_progress c))
       (drop (length (calls w)) (calls (run_next_task env (snd (main_upload_complete_webhook wh uid w))))) =
       [(''processing'', Some 0), (''processing'', Some 25), (''processing'', Some 75),
        (''formatted'', Some 100)] \<and>
     remdups_adj (map c_status
       (drop (length (calls w)) (calls (run_next_task env (snd (api_upload_complete_webhook wh uid w)))))) =
     remdups_adj (map c_status
       (drop (length (calls w)) (calls (run_next_task env (snd (main_upload_complete_webhook wh uid w)))))) \<and>
     (\<forall>r \<in> set (documents (run_next_task env (snd (api_upload_complete_webhook wh uid w)))).
        doc_id r = wh_job_id wh \<longrightarrow>
          status r = ''formatted'' \<and>
          map_of (case processing_log r of None \<Rightarrow> [] | Some l \<Rightarrow> l) ''progress'' = Some (PInt 100)) \<and>
     (\<forall>r \<in> set (documents (run_next_task env (snd (main_upload_complete_webhook wh uid w)))).
        doc_id r = wh_job_id wh \<longrightarrow>
          status r = ''formatted'' \<and>
          map_of (case processing_log r of None \<Rightarrow> [] | Some l \<Rightarrow> l) ''progress'' = Some (PInt 100))"
proof -
  note real = api_completed_run [OF assms]
  note sim = main_completed_run [OF assms(1-4), of env]
  from real have rc:
    "calls (run_next_task env (snd (api_upload_complete_webhook wh uid w))) =
       calls w @ [call_0 (wh_job_id wh), call_10 (wh_job_id wh), call_30 env (wh_job_id wh),
                  call_90 (wh_job_id wh), call_100 env (wh_job_id wh)]"
    by blast
  from sim have sc:
    "calls (run_next_task env (snd (main_upload_complete_webhook wh uid w))) =
       calls w @ [call_0 (wh_job_id wh), sim_call (wh_job_id wh) 25, sim_call (wh_job_id wh) 75,
                  sim_call_100 (wh_job_id wh)]"
    by blast
  have 1: "map (\<lambda>c. (c_status c, c_progress c))
       (drop (length (calls w)) (calls (run_next_task env (snd (api_upload_complete_webhook wh uid w))))) =
       [(''processing'', Some 0), (''processing'', Some 10), (''processing'', Some 30),
        (''processing'', Some 90), (''formatted'', Some 100)]"
    by (simp add: rc call_defs)
  have 2: "map (\<lambda>c. (c_status c, c_progress c))
       (drop (length (calls w)) (calls (run_next_task env (snd (main_upload_complete_webhook wh uid w))))) =
       [(''processing'', Some 0), (''processing'', Some 25), (''processing'', Some 75),
        (''formatted'', Some 100)]"
    by (simp add: sc call_defs)
  have 3: "remdups_adj (map c_status
       (drop (length (calls w)) (calls (run_next_task env (snd (api_upload_complete_webhook wh uid w)))))) =
     remdups_adj (map c_status
       (drop (length (calls w)) (calls (run_next_task env (snd (main_upload_complete_webhook wh uid w))))))"
    by (simp add: rc sc call_defs)
  have 4: "status r = ''formatted'' \<and>
          map_of (case processing_log r of None \<Rightarrow> [] | Some l \<Rightarrow> l) ''progress'' = Some (PInt 100)"
    if "r \<in> set (documents (run_next_task env (snd (api_upload_complete_webhook wh uid w))))"
      "doc_id r = wh_job_id wh" for r
    using real that by auto
  have 5: "status r = ''formatted'' \<and>
          map_of (case processing_log r of None \<Rightarrow> [] | Some l \<Rightarrow> l) ''progress'' = Some (PInt 100)"
    if "r \<in> set (documents (run_next_task env (snd (main_upload_complete_webhook wh uid w))))"
      "doc_id r = wh_job_id wh" for r
    using sim that by auto
  from 1 2 3 4 5 show ?thesis by blast
qed

text \<open>The amended claim at \<open>job-1\<close>, with the working engine.\<close>

theorem strategies_same_transitions_other_milestones_witness:
  "db_faults world1 = [] \<and> tasks world1 = [] \<and> st_faults world1 = [] \<and> wh_success notify1 \<and>
   filter (\<lambda>r. doc_id r = wh_job_id notify1 \<and> user_id r = ''alice'') (documents world1) = [job1] \<and>
   map_of (bucket world1) (relative_path (wh_file_path notify1)) = Some ''raw text'' \<and>
   map (\<lambda>c. (c_status c, c_progress c)) (calls world_formatted) =
     [(''processing'', Some 0), (''processing'', Some 10), (''processing'', Some 30),
      (''processing'', Some 90), (''formatted'', Some 100)] \<and>
   map (\<lambda>c. (c_status c, c_progress c)) (calls world_simulated) =
     [(''processing'', Some 0), (''processing'', Some 25), (''processing'', Some 75),
      (''formatted'', Some 100)] \<and>
   remdups_adj (map c_status (calls world_formatted)) = remdups_adj (map c_status (calls world_simulated))"
proof -
  let ?p = "\<lambda>r. doc_id r = wh_job_id notify1 \<and> user_id r = ''alice''"
  let ?fmt = "\<lambda>content. Inr (''formatted '' @ content) :: exc + bytes"
  have base: "db_faults world1 = []" "tasks world1 = []" "st_faults world1 = []" "wh_success notify1"
    "map_of (bucket world1) (relative_path (wh_file_path notify1)) = Some ''raw text''"
    by (simp_all add: world1_def notify1_def relative_path_def)
  have c0: "calls world1 = []" by (simp add: world1_def)
  have f: "filter ?p (documents world1) = [job1]"
    by (simp add: world1_def job1_def notify1_def)
  have e1: "AdvancedFormatter env_ok (style_applied job1)
              (if backend_of env_ok = ''gemini'' then GeminiClient else HuggingFaceClient) = Inr ?fmt"
    by (simp add: env_ok_def)
  have r: "?fmt ''raw text'' = Inr ''formatted raw text''" by simp
  note t = strategies_same_transitions_other_milestones
    [OF base(1) base(2) f base(4) base(3) base(5) e1 r]
  from t have
    "map (\<lambda>c. (c_status c, c_progress c)) (calls world_formatted) =
     [(''processing'', Some 0), (''processing'', Some 10), (''processing'', Some 30),
      (''processing'', Some 90), (''formatted'', Some 100)]"
    "map (\<lambda>c. (c_status c, c_progress c)) (calls world_simulated) =
     [(''processing'', Some 0), (''processing'', Some 25), (''processing'', Some 75),
      (''formatted'', Some 100)]"
    "remdups_adj (map c_status (calls world_formatted)) = remdups_adj (map c_status (calls world_simulated))"
    by (simp_all add: c0 world_formatted_def world_processing_def world_simulated_def)
  with base f show ?thesis by blast
qed





end
